theory Spec2Isabelle
  imports Main "HOL-Library.Word" "HOL-Library.Sublist"
begin

section \<open>Bytes and error values\<close>

text \<open>
  Go's \<^verbatim>\<open>[]byte\<close> is a list of 8-bit words; a Go \<^verbatim>\<open>string\<close> is a list of
  characters (Isabelle's \<^typ>\<open>char\<close> is one byte). A \<^verbatim>\<open>nil\<close> slice and an empty one
  are both the empty list.
\<close>

type_synonym byte = "8 word"

text \<open>
  The error values the wizard builds or receives. \<open>New s\<close> is \<^verbatim>\<open>errors.New(s)\<close>,
  \<open>Wrapf p e\<close> is \<^verbatim>\<open>fmt.Errorf(p + ": %w", e)\<close>; \<open>TooLong n\<close> and \<open>BPSTooHigh n\<close>
  are the two formatted messages of the repository ("input is too long; max 32 bytes;
  got: n", "fee basis point cannot be higher than n"). The others are the errors of the
  libraries the code calls: \<^verbatim>\<open>strconv.NumError\<close> with its function name and input
  (syntax or range), \<^verbatim>\<open>encoding/hex\<close>, go-ethereum's \<^verbatim>\<open>hexutil\<close>,
  \<^verbatim>\<open>base64.CorruptInputError\<close> (its byte offset is left out) and \<open>Ext s\<close>, an error
  of the payload-schema library or of the terminal framework.
\<close>

datatype error =
    New string
  | Wrapf string error
  | TooLong nat
  | BPSTooHigh int
  | NumErrSyntax string string
  | NumErrRange string string
  | InvalidByteError char
  | ErrLength
  | HexErrEmptyString
  | HexErrMissingPrefix
  | HexErrOddLength
  | HexErrSyntax
  | CorruptInputError
  | Ext string

section \<open>Library functions the code calls\<close>

subsection \<open>strings.TrimSpace, strconv.ParseUint, strconv.Atoi\<close>

text \<open>
  \<^verbatim>\<open>strings.TrimSpace\<close> removes the leading and the trailing white space of a
  string, white space being the runes of \<^verbatim>\<open>unicode.IsSpace\<close>: the six ASCII bytes
  \<^verbatim>\<open>\t \n \v \f \r\<close> and the blank, U+0085 and U+00A0 of Latin-1, and U+1680,
  U+2000 to U+200A, U+2028, U+2029, U+202F, U+205F and U+3000. A Go string is a byte
  sequence read as UTF-8, so \<open>spaceSeqs\<close> lists the UTF-8 encodings of these runes. A
  byte that starts no valid encoding is decoded as \<^verbatim>\<open>utf8.RuneError\<close> of width one,
  which is no white space, so a string starts (ends) with a white-space rune exactly
  when one of the sequences is a prefix (suffix) of it; the ASCII fast path of the
  library function gives the same result as \<^verbatim>\<open>TrimFunc(s, unicode.IsSpace)\<close>.
\<close>

definition spaceSeqs :: "string list" where
  "spaceSeqs =
     [[CHR 0x09], [CHR 0x0A], [CHR 0x0B], [CHR 0x0C], [CHR 0x0D], [CHR 0x20],
      [CHR 0xC2, CHR 0x85], [CHR 0xC2, CHR 0xA0],
      [CHR 0xE1, CHR 0x9A, CHR 0x80],
      [CHR 0xE2, CHR 0x80, CHR 0x80], [CHR 0xE2, CHR 0x80, CHR 0x81],
      [CHR 0xE2, CHR 0x80, CHR 0x82], [CHR 0xE2, CHR 0x80, CHR 0x83],
      [CHR 0xE2, CHR 0x80, CHR 0x84], [CHR 0xE2, CHR 0x80, CHR 0x85],
      [CHR 0xE2, CHR 0x80, CHR 0x86], [CHR 0xE2, CHR 0x80, CHR 0x87],
      [CHR 0xE2, CHR 0x80, CHR 0x88], [CHR 0xE2, CHR 0x80, CHR 0x89],
      [CHR 0xE2, CHR 0x80, CHR 0x8A],
      [CHR 0xE2, CHR 0x80, CHR 0xA8], [CHR 0xE2, CHR 0x80, CHR 0xA9],
      [CHR 0xE2, CHR 0x80, CHR 0xAF],
      [CHR 0xE2, CHR 0x81, CHR 0x9F],
      [CHR 0xE3, CHR 0x80, CHR 0x80]]"

text \<open>
  \<^verbatim>\<open>TrimLeftFunc(s, unicode.IsSpace)\<close>, with the encodings to look for as a parameter:
  as long as the string starts with one of them, that rune is dropped. \<open>q\<close> is the
  encoding found, of which the first byte is \<open>c\<close>.
\<close>

fun trimLeft :: "string list \<Rightarrow> string \<Rightarrow> string" where
  "trimLeft seqs [] = []"
| "trimLeft seqs (c # cs) =
     (case find (\<lambda>q. q \<noteq> [] \<and> prefix q (c # cs)) seqs of
        None \<Rightarrow> c # cs
      | Some q \<Rightarrow> trimLeft seqs (drop (length q - 1) cs))"

text \<open>
  \<^verbatim>\<open>TrimRightFunc\<close> drops the white-space runes at the end, read backwards: on the
  reversed string these are the reversed encodings at the front.
\<close>

definition trimRight :: "string list \<Rightarrow> string \<Rightarrow> string" where
  "trimRight seqs s = rev (trimLeft (map rev seqs) (rev s))"

definition TrimSpace :: "string \<Rightarrow> string" where
  "TrimSpace s = trimRight spaceSeqs (trimLeft spaceSeqs s)"

definition isDigit :: "char \<Rightarrow> bool" where
  "isDigit c = (48 \<le> (of_char c :: nat) \<and> (of_char c :: nat) \<le> 57)"

definition digitVal :: "char \<Rightarrow> nat" where
  "digitVal c = of_char c - 48"

text \<open>
  The digit loop of \<^verbatim>\<open>strconv.ParseUint\<close> in base 10: a byte that is not a decimal
  digit is a syntax error, a value above \<open>maxVal\<close> a range error, each reported where
  the scan meets it. \<open>fn\<close> and \<open>s0\<close> are the function name and the input the
  \<^verbatim>\<open>NumError\<close> carries.
\<close>

fun parseUintLoop :: "string \<Rightarrow> string \<Rightarrow> nat \<Rightarrow> nat \<Rightarrow> string \<Rightarrow> error + nat" where
  "parseUintLoop fn s0 maxVal n [] = Inr n"
| "parseUintLoop fn s0 maxVal n (c # cs) =
     (if isDigit c then
        (if n * 10 + digitVal c > maxVal then Inl (NumErrRange fn s0)
         else parseUintLoop fn s0 maxVal (n * 10 + digitVal c) cs)
      else Inl (NumErrSyntax fn s0))"

text \<open>\<^verbatim>\<open>strconv.ParseUint(s, 10, bitSize)\<close>: no sign, no underscore, the empty string
  is a syntax error.\<close>

definition ParseUint10 :: "string \<Rightarrow> nat \<Rightarrow> error + nat" where
  "ParseUint10 s bitSize =
     (if s = [] then Inl (NumErrSyntax ''ParseUint'' s)
      else parseUintLoop ''ParseUint'' s (2 ^ bitSize - 1) 0 s)"

text \<open>
  \<^verbatim>\<open>strconv.Atoi\<close> on a 64-bit platform: an optional sign, then decimal digits; the
  result is an \<^verbatim>\<open>int\<close> between \<open>-2^63\<close> and \<open>2^63 - 1\<close>.
\<close>

definition Atoi :: "string \<Rightarrow> error + int" where
  "Atoi s =
     (let neg = (take 1 s = ''-'');
          digits = (if take 1 s = ''-'' \<or> take 1 s = ''+'' then drop 1 s else s)
      in if digits = [] then Inl (NumErrSyntax ''Atoi'' s)
         else
           (case parseUintLoop ''Atoi'' s (2 ^ 64 - 1) 0 digits of
              Inl e \<Rightarrow> Inl e
            | Inr un \<Rightarrow>
                (if neg then (if un > 2 ^ 63 then Inl (NumErrRange ''Atoi'' s) else Inr (- int un))
                 else (if un \<ge> 2 ^ 63 then Inl (NumErrRange ''Atoi'' s) else Inr (int un)))))"

subsection \<open>encoding/hex and hexutil.Decode\<close>

text \<open>
  \<^verbatim>\<open>hex.DecodeString\<close>: two hex digits (either case) per byte; an invalid digit is
  reported before an odd length. The bytes decoded before an error are dropped, since
  the caller discards the result when the error is set.
\<close>

definition fromHexChar :: "char \<Rightarrow> nat option" where
  "fromHexChar c =
     (let n = (of_char c :: nat) in
      if 48 \<le> n \<and> n \<le> 57 then Some (n - 48)
      else if 97 \<le> n \<and> n \<le> 102 then Some (n - 97 + 10)
      else if 65 \<le> n \<and> n \<le> 70 then Some (n - 65 + 10)
      else None)"

fun hex_DecodeString :: "string \<Rightarrow> error + byte list" where
  "hex_DecodeString [] = Inr []"
| "hex_DecodeString [p] =
     (case fromHexChar p of None \<Rightarrow> Inl (InvalidByteError p) | Some a \<Rightarrow> Inl ErrLength)"
| "hex_DecodeString (p # q # rest) =
     (case fromHexChar p of
        None \<Rightarrow> Inl (InvalidByteError p)
      | Some a \<Rightarrow>
         (case fromHexChar q of
            None \<Rightarrow> Inl (InvalidByteError q)
          | Some b \<Rightarrow>
             (case hex_DecodeString rest of
                Inl e \<Rightarrow> Inl e
              | Inr bs \<Rightarrow> Inr (word_of_nat (a * 16 + b) # bs))))"

text \<open>go-ethereum's \<^verbatim>\<open>hexutil.Decode\<close>: the empty string and a missing \<^verbatim>\<open>0x\<close> or
  \<^verbatim>\<open>0X\<close> prefix are errors; the rest is decoded by \<^verbatim>\<open>hex.DecodeString\<close> and its
  errors are renamed by \<^verbatim>\<open>mapError\<close>.\<close>

definition has0xPrefix :: "string \<Rightarrow> bool" where
  "has0xPrefix input =
     (length input \<ge> 2 \<and> input ! 0 = CHR ''0'' \<and> (input ! 1 = CHR ''x'' \<or> input ! 1 = CHR ''X''))"

fun mapError :: "error \<Rightarrow> error" where
  "mapError (InvalidByteError c) = HexErrSyntax"
| "mapError ErrLength = HexErrOddLength"
| "mapError e = e"

definition hexutil_Decode :: "string \<Rightarrow> error + byte list" where
  "hexutil_Decode input =
     (if input = [] then Inl HexErrEmptyString
      else if has0xPrefix input then
        (case hex_DecodeString (drop 2 input) of
           Inl e \<Rightarrow> Inl (mapError e)
         | Inr b \<Rightarrow> Inr b)
      else Inl HexErrMissingPrefix)"

subsection \<open>base64.StdEncoding.DecodeString\<close>

text \<open>
  The standard alphabet with \<^verbatim>\<open>=\<close> padding, not strict: carriage returns and line feeds are
  skipped, four characters make three bytes, a final group of two or three characters
  needs its padding, and anything after the padding other than newlines is an error.
  \<open>decodeMap\<close> is the table built from the alphabet, \<open>quantumBytes\<close> the conversion
  of the collected 6-bit values into bytes (the shifts and ORs of disjoint bit fields
  written as sums), and \<open>decodeQuanta dbuf s\<close> the loop over \<^verbatim>\<open>decodeQuantum\<close>, with
  \<open>dbuf\<close> the 6-bit values of the group being read.
\<close>

definition encodeStd :: string where
  "encodeStd = ''ABCDEFGHIJKLMNOPQRSTUVWXYZabcdefghijklmnopqrstuvwxyz0123456789+/''"

fun pos :: "'a \<Rightarrow> 'a list \<Rightarrow> nat option" where
  "pos x [] = None"
| "pos x (y # ys) = (if x = y then Some 0 else map_option Suc (pos x ys))"

definition decodeMap :: "char \<Rightarrow> nat option" where
  "decodeMap c = pos c encodeStd"

definition isNewline :: "char \<Rightarrow> bool" where
  "isNewline c = (c = CHR 0x0A \<or> c = CHR 0x0D)"

fun skipNewlines :: "string \<Rightarrow> string" where
  "skipNewlines [] = []"
| "skipNewlines (c # cs) = (if isNewline c then skipNewlines cs else c # cs)"

definition quantumBytes :: "nat list \<Rightarrow> byte list" where
  "quantumBytes dbuf =
     (let d = dbuf @ replicate (4 - length dbuf) 0;
          val = d ! 0 * 2 ^ 18 + d ! 1 * 2 ^ 12 + d ! 2 * 2 ^ 6 + d ! 3
      in take (length dbuf - 1)
           [word_of_nat (val div 2 ^ 16), word_of_nat (val div 2 ^ 8), word_of_nat val])"

fun decodeQuanta :: "nat list \<Rightarrow> string \<Rightarrow> error + byte list" where
  "decodeQuanta dbuf [] = (if dbuf = [] then Inr [] else Inl CorruptInputError)"
| "decodeQuanta dbuf (c # cs) =
     (case decodeMap c of
        Some out \<Rightarrow>
          (if length dbuf = 3 then
             (case decodeQuanta [] cs of
                Inl e \<Rightarrow> Inl e
              | Inr bs \<Rightarrow> Inr (quantumBytes (dbuf @ [out]) @ bs))
           else decodeQuanta (dbuf @ [out]) cs)
      | None \<Rightarrow>
          (if isNewline c then decodeQuanta dbuf cs
           else if c = CHR ''='' then
             (if length dbuf < 2 then Inl CorruptInputError
              else if length dbuf = 2 then
                (case skipNewlines cs of
                   [] \<Rightarrow> Inl CorruptInputError
                 | p # ps \<Rightarrow>
                     (if p = CHR ''='' then
                        (if skipNewlines ps = [] then Inr (quantumBytes dbuf)
                         else Inl CorruptInputError)
                      else Inl CorruptInputError))
              else
                (if skipNewlines cs = [] then Inr (quantumBytes dbuf)
                 else Inl CorruptInputError))
           else Inl CorruptInputError))"

definition base64_DecodeString :: "string \<Rightarrow> error + byte list" where
  "base64_DecodeString s = decodeQuanta [] s"

subsection \<open>The two string representations of a byte sequence\<close>

text \<open>
  What the specification calls the 0x-prefixed hexadecimal representation and the
  standard base64 representation of a byte sequence: \<^verbatim>\<open>hexutil.Encode\<close> (lower-case
  digits) and \<^verbatim>\<open>base64.StdEncoding.EncodeToString\<close>. The repository does not call
  them; they state the cross-encoding property.
\<close>

definition hextable :: string where
  "hextable = ''0123456789abcdef''"

definition hex_EncodeToString :: "byte list \<Rightarrow> string" where
  "hex_EncodeToString bs =
     concat (map (\<lambda>b. [hextable ! (unat b div 16), hextable ! (unat b mod 16)]) bs)"

definition hexutil_Encode :: "byte list \<Rightarrow> string" where
  "hexutil_Encode bs = ''0x'' @ hex_EncodeToString bs"

fun base64_EncodeToString :: "byte list \<Rightarrow> string" where
  "base64_EncodeToString [] = []"
| "base64_EncodeToString [a] =
     (let val = unat a * 2 ^ 16 in
      [encodeStd ! (val div 2 ^ 18 mod 64), encodeStd ! (val div 2 ^ 12 mod 64), CHR ''='', CHR ''=''])"
| "base64_EncodeToString [a, b] =
     (let val = unat a * 2 ^ 16 + unat b * 2 ^ 8 in
      [encodeStd ! (val div 2 ^ 18 mod 64), encodeStd ! (val div 2 ^ 12 mod 64),
       encodeStd ! (val div 2 ^ 6 mod 64), CHR ''=''])"
| "base64_EncodeToString (a # b # c # rest) =
     (let val = unat a * 2 ^ 16 + unat b * 2 ^ 8 + unat c in
      [encodeStd ! (val div 2 ^ 18 mod 64), encodeStd ! (val div 2 ^ 12 mod 64),
       encodeStd ! (val div 2 ^ 6 mod 64), encodeStd ! (val mod 64)]
      @ base64_EncodeToString rest)"

section \<open>Field validators (actions.go)\<close>

definition BPSNormalizer :: int where
  "BPSNormalizer = 10000"

text \<open>
  \<^verbatim>\<open>validateBPS(bps int) error\<close>, actions.go lines 217-231. Go's \<^verbatim>\<open>int\<close> is signed;
  the function only compares, so the unbounded \<^typ>\<open>int\<close> loses nothing. \<open>None\<close> is
  the \<^verbatim>\<open>nil\<close> error.
\<close>

definition validateBPS :: "int \<Rightarrow> error option" where
  "validateBPS bps =
     (if bps = 0 then Some (New ''fee basis point cannot be zero'')
      else if bps > BPSNormalizer then Some (BPSTooHigh BPSNormalizer)
      else None)"

text \<open>The validator closure of the basis-points field of the fee form
  (\<^verbatim>\<open>initFeeActionForm\<close>, actions.go lines 198-206): \<^verbatim>\<open>strconv.Atoi\<close>, then
  \<^verbatim>\<open>validateBPS\<close>.\<close>

definition fee_action_basis_points_Validate :: "string \<Rightarrow> error option" where
  "fee_action_basis_points_Validate s =
     (case Atoi s of Inl e \<Rightarrow> Some e | Inr bps \<Rightarrow> validateBPS bps)"

section \<open>Byte codec (forwarding.go)\<close>

text \<open>
  \<^verbatim>\<open>leftPadIfRequired\<close>, forwarding.go lines 268-281: more than 32 bytes is an error,
  exactly 32 bytes are returned as they are, fewer are appended to a fresh zero slice of
  the missing length.
\<close>

definition leftPadIfRequired :: "byte list \<Rightarrow> error + byte list" where
  "leftPadIfRequired input =
     (let inputLen = length input in
      if inputLen > 32 then Inl (TooLong inputLen)
      else if inputLen = 32 then Inr input
      else Inr (replicate (32 - inputLen) 0 @ input))"

text \<open>
  \<^verbatim>\<open>decodeHexOrBase64To32Bytes\<close>, forwarding.go lines 251-265: an input starting with
  \<^verbatim>\<open>0x\<close> goes to \<^verbatim>\<open>hexutil.Decode\<close>, every other input to the base64 decoder; the
  decoded bytes are then padded.
\<close>

definition decodeHexOrBase64To32Bytes :: "string \<Rightarrow> error + byte list" where
  "decodeHexOrBase64To32Bytes input =
     (if prefix ''0x'' input then
        (case hexutil_Decode input of
           Inl e \<Rightarrow> Inl (Wrapf ''failed to decode hex'' e)
         | Inr decoded \<Rightarrow> leftPadIfRequired decoded)
      else
        (case base64_DecodeString input of
           Inl e \<Rightarrow> Inl (Wrapf ''failed to decode base64'' e)
         | Inr decoded \<Rightarrow> leftPadIfRequired decoded))"

section \<open>The terminal framework, as far as the wizard uses it\<close>

text \<open>
  A key event of the terminal framework and its \<^verbatim>\<open>String()\<close>: a key of type
  \<open>KeyRunes\<close> prints its runes, enclosed in brackets when it is a paste; every other key
  prints its name; \<^verbatim>\<open>alt+\<close> is put in front when the Alt modifier is set. Only the key
  types the wizard's screens react to are listed.
\<close>

datatype KeyType =
    KeyRunes | KeyEnter | KeyCtrlC | KeyTab | KeyShiftTab | KeyUp | KeyDown
  | KeyBackspace | KeyEsc

record Key =
  keyType :: KeyType
  Runes :: string
  Alt :: bool
  Paste :: bool

fun keyNames :: "KeyType \<Rightarrow> string" where
  "keyNames KeyRunes = ''runes''"
| "keyNames KeyEnter = ''enter''"
| "keyNames KeyCtrlC = ''ctrl+c''"
| "keyNames KeyTab = ''tab''"
| "keyNames KeyShiftTab = ''shift+tab''"
| "keyNames KeyUp = ''up''"
| "keyNames KeyDown = ''down''"
| "keyNames KeyBackspace = ''backspace''"
| "keyNames KeyEsc = ''esc''"

definition KeyString :: "Key \<Rightarrow> string" where
  "KeyString k =
     (if Alt k then ''alt+'' else [])
     @ (if keyType k = KeyRunes then
          (if Paste k then ''['' else []) @ Runes k @ (if Paste k then '']'' else [])
        else keyNames (keyType k))"

datatype Msg = KeyMsg Key | WindowSizeMsg int int | OtherMsg nat

text \<open>Commands: \<open>CmdNil\<close> is the \<^verbatim>\<open>nil\<close> command, \<open>Batch\<close> is \<^verbatim>\<open>tea.Batch\<close>.\<close>

datatype Cmd = CmdNil | Quit | Blink | Batch "Cmd list" | ExtCmd nat

text \<open>The text field: the fields the code sets, its value and its focus.
  \<^verbatim>\<open>Focus()\<close> returns the cursor's blink command.\<close>

record textinput =
  Placeholder :: string
  CharLimit :: int
  Width :: int
  tiValue :: string
  tiFocus :: bool

definition textinput_New :: textinput where
  "textinput_New = \<lparr>Placeholder = [], CharLimit = 0, Width = 0, tiValue = [], tiFocus = False\<rparr>"

definition Focus :: "textinput \<Rightarrow> textinput \<times> Cmd" where
  "Focus ti = (ti\<lparr>tiFocus := True\<rparr>, Blink)"

definition Blur :: "textinput \<Rightarrow> textinput" where
  "Blur ti = ti\<lparr>tiFocus := False\<rparr>"

text \<open>The selection list: its title, its items, the cursor and its size.
  \<^verbatim>\<open>SelectedItem()\<close> is \<^verbatim>\<open>nil\<close> when the cursor is on no item.\<close>

record item =
  title :: string
  desc :: string

record list_Model =
  listTitle :: string
  listItems :: "item list"
  listCursor :: nat
  listWidth :: int
  listHeight :: int

definition list_New :: "item list \<Rightarrow> int \<Rightarrow> int \<Rightarrow> list_Model" where
  "list_New its w h =
     \<lparr>listTitle = ''List'', listItems = its, listCursor = 0, listWidth = w, listHeight = h\<rparr>"

definition SelectedItem :: "list_Model \<Rightarrow> item option" where
  "SelectedItem l =
     (if listCursor l < length (listItems l) then Some (listItems l ! listCursor l) else None)"

text \<open>The form of the fee action (package huh): its state and the values it collected,
  read with \<^verbatim>\<open>GetString\<close> and \<^verbatim>\<open>GetInt\<close> (the zero value for a missing key).\<close>

datatype FormState = StateNormal | StateCompleted | StateAborted

record Form =
  formState :: FormState
  formStrings :: "(string \<times> string) list"
  formInts :: "(string \<times> int) list"

definition huh_NewForm :: Form where
  "huh_NewForm = \<lparr>formState = StateNormal, formStrings = [], formInts = []\<rparr>"

definition GetString :: "Form \<Rightarrow> string \<Rightarrow> string" where
  "GetString f k = (case map_of (formStrings f) k of None \<Rightarrow> [] | Some v \<Rightarrow> v)"

definition GetInt :: "Form \<Rightarrow> string \<Rightarrow> int" where
  "GetInt f k = (case map_of (formInts f) k of None \<Rightarrow> 0 | Some v \<Rightarrow> v)"

section \<open>The payload schema, as far as the wizard uses it\<close>

datatype ActionID = ACTION_UNSUPPORTED | ACTION_FEE | ACTION_SWAP

datatype ProtocolID =
  PROTOCOL_UNSUPPORTED | PROTOCOL_IBC | PROTOCOL_CCTP | PROTOCOL_HYPERLANE | PROTOCOL_INTERNAL

fun ActionID_String :: "ActionID \<Rightarrow> string" where
  "ActionID_String ACTION_UNSUPPORTED = ''ACTION_UNSUPPORTED''"
| "ActionID_String ACTION_FEE = ''ACTION_FEE''"
| "ActionID_String ACTION_SWAP = ''ACTION_SWAP''"

fun ProtocolID_String :: "ProtocolID \<Rightarrow> string" where
  "ProtocolID_String PROTOCOL_UNSUPPORTED = ''PROTOCOL_UNSUPPORTED''"
| "ProtocolID_String PROTOCOL_IBC = ''PROTOCOL_IBC''"
| "ProtocolID_String PROTOCOL_CCTP = ''PROTOCOL_CCTP''"
| "ProtocolID_String PROTOCOL_HYPERLANE = ''PROTOCOL_HYPERLANE''"
| "ProtocolID_String PROTOCOL_INTERNAL = ''PROTOCOL_INTERNAL''"

record FeeInfo =
  Recipient :: string
  BasisPoints :: "32 word"

record FeeAttributes =
  FeesInfo :: "FeeInfo list"

record Action =
  actionId :: ActionID
  actionAttributes :: "FeeAttributes option"

record Forwarding =
  protocolId :: ProtocolID
  DestinationDomain :: "32 word"
  MintRecipient :: "byte list"
  DestinationCaller :: "byte list"
  PassthroughPayload :: "byte list"

section \<open>The session (ui_model.go)\<close>

text \<open>
  \<^verbatim>\<open>type state int\<close> and \<^verbatim>\<open>type Model struct\<close>, ui_model.go lines 31-67. The second
  version of the file (the one with the fee form) has the same fields and the pointer
  \<^verbatim>\<open>feeActionForm\<close> besides, \<open>None\<close> when \<^verbatim>\<open>nil\<close>; it does not declare
  \<open>internalForwardingInput\<close>. \<open>err = None\<close> is the \<^verbatim>\<open>nil\<close> error and
  \<open>forwarding = None\<close> the \<^verbatim>\<open>nil\<close> pointer.
\<close>

datatype state =
    actionSelection
  | feeActionInput
  | forwardingSelection
  | cctpForwardingInput
  | internalForwardingInput

record Model =
  state :: state
  list_m :: list_Model
  actionInputs :: "textinput list"
  forwardingInputs :: "textinput list"
  actions :: "Action list"
  forwarding :: "Forwarding option"
  err :: "error option"
  payload :: string
  windowWidth :: int
  windowHeight :: int
  feeActionForm :: "Form option"

text \<open>
  The package-level variable \<^verbatim>\<open>focusIndex\<close> and the position in the stream of random
  bytes that \<^verbatim>\<open>testutil.RandomBytes\<close> draws from: the state outside the \<^verbatim>\<open>Model\<close>.
\<close>

record globals =
  focusIndex :: int
  randomPos :: nat

text \<open>
  One call of an \<^verbatim>\<open>Update\<close>-like method either panics or returns the new model and a
  command; the globals it leaves behind are part of the result.
\<close>

datatype outcome = Panic string | Step globals Model Cmd

text \<open>
  What the wizard takes from outside. From the libraries: the update
  functions of the list, of the text field and of the form, the form's \<^verbatim>\<open>Init\<close>, the
  schema library's validators and constructors, and the stream of random bytes. From the
  repository, but declared outside actions.go, forwarding.go and ui_model.go: the key-name constants \<^verbatim>\<open>Tab\<close>,
  \<^verbatim>\<open>ShiftTab\<close>, \<^verbatim>\<open>Up\<close>, \<^verbatim>\<open>Down\<close>, the function \<^verbatim>\<open>buildFinalPayload\<close>
  (returning the payload string and the error together, as the Go function does), and
  the three functions ui_model.go calls for the fee text fields and the internal
  forwarding (\<^verbatim>\<open>updateActionInputs\<close>, \<^verbatim>\<open>initInternalForwardingInput\<close>,
  \<^verbatim>\<open>processInternalForwarding\<close>). Every theorem below holds for all of them.
\<close>

record env =
  Tab :: string
  ShiftTab :: string
  Up :: string
  Down :: string
  list_Update :: "list_Model \<Rightarrow> Msg \<Rightarrow> list_Model \<times> Cmd"
  textinput_Update :: "textinput \<Rightarrow> Msg \<Rightarrow> textinput \<times> Cmd"
  Form_Update :: "Form \<Rightarrow> Msg \<Rightarrow> Form \<times> Cmd"
  Form_Init :: "Form \<Rightarrow> Cmd"
  FeeAttributes_Validate :: "FeeAttributes \<Rightarrow> error option"
  SetAttributes :: "Action \<Rightarrow> FeeAttributes \<Rightarrow> Action \<times> error option"
  Action_Validate :: "Action \<Rightarrow> error option"
  NewCCTPForwarding :: "32 word \<Rightarrow> byte list \<Rightarrow> byte list \<Rightarrow> byte list \<Rightarrow> error + Forwarding"
  buildFinalPayload :: "Forwarding \<Rightarrow> Action list \<Rightarrow> string \<times> error option"
  randomByte :: "nat \<Rightarrow> byte"
  updateActionInputs :: "globals \<Rightarrow> Model \<Rightarrow> Msg \<Rightarrow> globals \<times> textinput list \<times> Cmd"
  initInternalForwardingInput :: "globals \<Rightarrow> Model \<Rightarrow> globals \<times> Model"
  processInternalForwarding :: "globals \<Rightarrow> Model \<Rightarrow> outcome"

text \<open>\<^verbatim>\<open>testutil.RandomBytes(n)\<close>: the next \<open>n\<close> bytes of the stream.\<close>

definition RandomBytes :: "env \<Rightarrow> globals \<Rightarrow> nat \<Rightarrow> byte list \<times> globals" where
  "RandomBytes env g n =
     (map (randomByte env) [randomPos g ..< randomPos g + n], g\<lparr>randomPos := randomPos g + n\<rparr>)"

section \<open>The action builder (actions.go)\<close>

definition actionItems :: "item list" where
  "actionItems =
     [\<lparr>title = ActionID_String ACTION_FEE, desc = ''Add fee payment action''\<rparr>,
      \<lparr>title = ActionID_String ACTION_SWAP, desc = ''Add token swap action''\<rparr>,
      \<lparr>title = ''No more actions'', desc = ''Proceed to forwarding selection''\<rparr>]"

text \<open>\<^verbatim>\<open>initFeeActionInput\<close>, actions.go lines 82-103; the command of
  \<^verbatim>\<open>Focus()\<close> is dropped there.\<close>

definition initFeeActionInput :: "globals \<Rightarrow> Model \<Rightarrow> globals \<times> Model" where
  "initFeeActionInput g m =
     (let inputs =
            [textinput_New\<lparr>Placeholder := ''Fee recipient address'', CharLimit := 100, Width := 50\<rparr>,
             textinput_New\<lparr>Placeholder := ''Basis points (e.g. 100 for 1%)'', CharLimit := 5,
               Width := 30\<rparr>];
          m1 = m\<lparr>actionInputs := inputs, state := feeActionInput\<rparr>
      in (g\<lparr>focusIndex := 0\<rparr>,
          m1\<lparr>actionInputs := (actionInputs m1)[0 := fst (Focus (actionInputs m1 ! 0))]\<rparr>))"

text \<open>\<^verbatim>\<open>initActionSelection\<close>, actions.go lines 164-184.\<close>

definition initActionSelection :: "Model \<Rightarrow> Model" where
  "initActionSelection m =
     (let l = (list_New actionItems 0 0)\<lparr>listTitle := ''Select an action to add:''\<rparr>;
          l1 = (if windowWidth m > 0 \<and> windowHeight m > 0
                then l\<lparr>listWidth := windowWidth m, listHeight := windowHeight m - 3\<rparr>
                else l)
      in m\<lparr>list_m := l1, state := actionSelection\<rparr>)"

text \<open>
  \<^verbatim>\<open>processFeeAction\<close>, actions.go lines 105-162. Reading \<^verbatim>\<open>m.actionInputs[0]\<close> and
  \<^verbatim>\<open>[1]\<close> panics when the slice is shorter. \<^verbatim>\<open>SetAttributes\<close> works on the new
  action through a pointer: the model has it return the action it leaves.
\<close>

definition processFeeAction :: "env \<Rightarrow> globals \<Rightarrow> Model \<Rightarrow> outcome" where
  "processFeeAction env g m =
     (if length (actionInputs m) < 2 then Panic ''index out of range''
      else
        let recipientAddr = TrimSpace (tiValue (actionInputs m ! 0));
            basisPointsStr = TrimSpace (tiValue (actionInputs m ! 1))
        in
        if recipientAddr = [] then
          Step g (m\<lparr>err := Some (New ''recipient address is required'')\<rparr>) CmdNil
        else if basisPointsStr = [] then
          Step g (m\<lparr>err := Some (New ''basis points is required'')\<rparr>) CmdNil
        else
          (case ParseUint10 basisPointsStr 32 of
             Inl e \<Rightarrow> Step g (m\<lparr>err := Some (Wrapf ''invalid basis points'' e)\<rparr>) CmdNil
           | Inr basisPoints \<Rightarrow>
               (let feeAttr =
                      \<lparr>FeesInfo = [\<lparr>Recipient = recipientAddr,
                                    BasisPoints = word_of_nat basisPoints\<rparr>]\<rparr>
                in
                case FeeAttributes_Validate env feeAttr of
                  Some e \<Rightarrow> Step g (m\<lparr>err := Some (Wrapf ''invalid fee attributes'' e)\<rparr>) CmdNil
                | None \<Rightarrow>
                    (case SetAttributes env \<lparr>actionId = ACTION_FEE, actionAttributes = None\<rparr> feeAttr of
                       (feeAction, Some e) \<Rightarrow>
                         Step g (m\<lparr>err := Some (Wrapf ''failed to set action attributes'' e)\<rparr>) CmdNil
                     | (feeAction, None) \<Rightarrow>
                         (case Action_Validate env feeAction of
                            Some e \<Rightarrow>
                              Step g (m\<lparr>err := Some (Wrapf ''invalid fee action'' e)\<rparr>) CmdNil
                          | None \<Rightarrow>
                              Step g (initActionSelection (m\<lparr>actions := actions m @ [feeAction]\<rparr>))
                                CmdNil)))))"

text \<open>\<^verbatim>\<open>initFeeActionForm\<close>, actions.go lines 188-214: a fresh form. Its two
  validator closures are \<^verbatim>\<open>sdk.AccAddressFromBech32\<close> and
  \<open>fee_action_basis_points_Validate\<close> above.\<close>

definition initFeeActionForm :: "Model \<Rightarrow> Model" where
  "initFeeActionForm m = m\<lparr>feeActionForm := Some huh_NewForm\<rparr>"

section \<open>The forwarding builder (forwarding.go)\<close>

definition forwardingItems :: "item list" where
  "forwardingItems =
     [\<lparr>title = ProtocolID_String PROTOCOL_CCTP,
       desc = ''Circle's Cross-Chain Transfer Protocol (USDC transfers)''\<rparr>,
      \<lparr>title = ProtocolID_String PROTOCOL_IBC,
       desc = ''Inter-Blockchain Communication (Cosmos ecosystem)''\<rparr>,
      \<lparr>title = ProtocolID_String PROTOCOL_HYPERLANE, desc = ''Hyperlane interchain protocol''\<rparr>]"

text \<open>\<^verbatim>\<open>initForwardingSelection\<close>, forwarding.go lines 67-93.\<close>

definition initForwardingSelection :: "Model \<Rightarrow> Model" where
  "initForwardingSelection m =
     (let l = (list_New forwardingItems 0 0)\<lparr>listTitle := ''Select a protocol:''\<rparr>;
          l1 = (if windowWidth m > 0 \<and> windowHeight m > 0
                then l\<lparr>listWidth := windowWidth m, listHeight := windowHeight m - 3\<rparr>
                else l)
      in m\<lparr>list_m := l1, state := forwardingSelection\<rparr>)"

text \<open>\<^verbatim>\<open>initCCTPForwardingInput\<close>, forwarding.go lines 95-126.\<close>

definition initCCTPForwardingInput :: "globals \<Rightarrow> Model \<Rightarrow> globals \<times> Model" where
  "initCCTPForwardingInput g m =
     (let inputs =
            [textinput_New\<lparr>Placeholder := ''Destination domain (e.g. 0)'', CharLimit := 10,
               Width := 30\<rparr>,
             textinput_New\<lparr>Placeholder := ''Mint recipient (prefix with '0x' for Hex input; otherwise base64 is assumed; put 'r' for random)'',
               CharLimit := 128, Width := 70\<rparr>,
             textinput_New\<lparr>Placeholder := ''Destination caller (prefix with '0x' for Hex input; otherwise base64 is assumed; put 'r' for random)'',
               CharLimit := 128, Width := 70\<rparr>,
             textinput_New\<lparr>Placeholder := ''Passthrough payload (can be left empty)'',
               CharLimit := 256, Width := 70\<rparr>];
          m1 = m\<lparr>forwardingInputs := inputs, state := cctpForwardingInput\<rparr>
      in (g\<lparr>focusIndex := 0\<rparr>,
          m1\<lparr>forwardingInputs :=
               (forwardingInputs m1)[0 := fst (Focus (forwardingInputs m1 ! 0))]\<rparr>))"

text \<open>
  The end of \<^verbatim>\<open>processCCTPForwarding\<close>, forwarding.go lines 180-201, for the
  domain, the two addresses and the passthrough payload the fields gave:
  \<^verbatim>\<open>m.forwarding\<close> is assigned as soon as the constructor succeeds,
  \<^verbatim>\<open>m.payload\<close> is assigned together with the error of \<^verbatim>\<open>buildFinalPayload\<close>,
  and only a successful assembly quits.
\<close>

definition finishCCTPForwarding ::
    "env \<Rightarrow> globals \<Rightarrow> Model \<Rightarrow> 32 word \<Rightarrow> byte list \<Rightarrow> byte list \<Rightarrow> byte list \<Rightarrow> outcome" where
  "finishCCTPForwarding env g m domain mintRecipient destCaller passthroughPayload =
     (case NewCCTPForwarding env domain mintRecipient destCaller passthroughPayload of
        Inl e \<Rightarrow> Step g (m\<lparr>err := Some (Wrapf ''failed to create CCTP forwarding'' e)\<rparr>) CmdNil
      | Inr cctpForwarding \<Rightarrow>
          (case buildFinalPayload env cctpForwarding (actions m) of
             (p, Some e) \<Rightarrow>
               Step g
                 (m\<lparr>forwarding := Some cctpForwarding, payload := p,
                    err := Some (Wrapf ''failed to build finalPayload'' e)\<rparr>)
                 CmdNil
           | (p, None) \<Rightarrow> Step g (m\<lparr>forwarding := Some cctpForwarding, payload := p\<rparr>) Quit))"

text \<open>
  \<^verbatim>\<open>processCCTPForwarding\<close>, forwarding.go lines 128-202 (lines 129-178 here, the
  rest above). The four field reads panic when the slice has fewer than four fields.
  \<^verbatim>\<open>[]byte(passthroughStr)\<close> is the string's bytes; \<^verbatim>\<open>uint32(domain)\<close> is
  \<open>word_of_nat\<close>. The globals change only by the random bytes drawn.
\<close>

definition processCCTPForwarding :: "env \<Rightarrow> globals \<Rightarrow> Model \<Rightarrow> outcome" where
  "processCCTPForwarding env g m =
     (if length (forwardingInputs m) < 4 then Panic ''index out of range''
      else
        let domainStr = TrimSpace (tiValue (forwardingInputs m ! 0));
            mintRecipientStr = TrimSpace (tiValue (forwardingInputs m ! 1));
            destCallerStr = TrimSpace (tiValue (forwardingInputs m ! 2));
            passthroughStr = TrimSpace (tiValue (forwardingInputs m ! 3))
        in
        if domainStr = [] then Step g m CmdNil
        else
          (case ParseUint10 domainStr 32 of
             Inl e \<Rightarrow> Step g (m\<lparr>err := Some (Wrapf ''invalid destination domain'' e)\<rparr>) CmdNil
           | Inr domain \<Rightarrow>
               if mintRecipientStr = [] then
                 Step g (m\<lparr>err := Some (New ''mint recipient cannot be empty'')\<rparr>) CmdNil
               else
                 (case (if mintRecipientStr = ''r'' then Inr (RandomBytes env g 32)
                        else (case decodeHexOrBase64To32Bytes mintRecipientStr of
                                Inl e \<Rightarrow> Inl e
                              | Inr b \<Rightarrow> Inr (b, g))) of
                    Inl e \<Rightarrow> Step g (m\<lparr>err := Some (Wrapf ''invalid mint recipient'' e)\<rparr>) CmdNil
                  | Inr (mintRecipient, g1) \<Rightarrow>
                      (case (if destCallerStr = ''r'' then Inr (RandomBytes env g1 32)
                             else if destCallerStr = [] then Inr ([], g1)
                             else (case decodeHexOrBase64To32Bytes destCallerStr of
                                     Inl e \<Rightarrow> Inl e
                                   | Inr b \<Rightarrow> Inr (b, g1))) of
                         Inl e \<Rightarrow>
                           Step g1 (m\<lparr>err := Some (Wrapf ''invalid destination caller'' e)\<rparr>) CmdNil
                       | Inr (destCaller, g2) \<Rightarrow>
                           finishCCTPForwarding env g2 m (word_of_nat domain) mintRecipient destCaller
                             (if passthroughStr = [] then [] else map of_char passthroughStr)))))"

text \<open>
  \<^verbatim>\<open>updateForwardingInputs\<close>, forwarding.go lines 204-247. The method has a value
  receiver, but the text fields live in the slice's array, which the caller's model
  shares: the fields it leaves are returned with the command. The focus keys move the
  global \<^verbatim>\<open>focusIndex\<close> and focus that field alone; every other message goes to every
  field.
\<close>

definition updateForwardingInputs ::
    "env \<Rightarrow> globals \<Rightarrow> Model \<Rightarrow> Msg \<Rightarrow> globals \<times> textinput list \<times> Cmd" where
  "updateForwardingInputs env g m msg =
     (let inputs = forwardingInputs m;
          others = (g, map (\<lambda>ti. fst (textinput_Update env ti msg)) inputs,
                    Batch (map (\<lambda>ti. snd (textinput_Update env ti msg)) inputs))
      in
      if length inputs = 0 then (g, inputs, CmdNil)
      else
        (case msg of
           KeyMsg k \<Rightarrow>
             (let s = KeyString k in
              if s = Tab env \<or> s = ShiftTab env \<or> s = Up env \<or> s = Down env then
                (let fi = (if s = Up env \<or> s = ShiftTab env then
                             (if focusIndex g > 0 then focusIndex g - 1 else focusIndex g)
                           else if s = Down env \<or> s = Tab env then
                             (if focusIndex g < int (length inputs) - 1 then focusIndex g + 1
                              else focusIndex g)
                           else focusIndex g)
                 in (g\<lparr>focusIndex := fi\<rparr>,
                     map (\<lambda>i. if int i = fi then fst (Focus (inputs ! i)) else Blur (inputs ! i))
                       [0 ..< length inputs],
                     Batch (map (\<lambda>i. if int i = fi then snd (Focus (inputs ! i)) else CmdNil)
                       [0 ..< length inputs])))
              else others)
         | WindowSizeMsg w h \<Rightarrow> others
         | OtherMsg n \<Rightarrow> others))"

section \<open>The wizard state machine (ui_model.go)\<close>

text \<open>\<^verbatim>\<open>InitialModel\<close> and \<^verbatim>\<open>GetPayload\<close>, ui_model.go lines 71-94.\<close>

definition InitialModel :: Model where
  "InitialModel =
     \<lparr>state = actionSelection,
      list_m = (list_New actionItems 0 0)\<lparr>listTitle := ''Select an action to add:''\<rparr>,
      actionInputs = [], forwardingInputs = [], actions = [], forwarding = None, err = None,
      payload = [], windowWidth = 0, windowHeight = 0, feeActionForm = None\<rparr>"

definition GetPayload :: "Model \<Rightarrow> string" where
  "GetPayload m = payload m"

text \<open>
  \<^verbatim>\<open>handleEnter\<close>, ui_model.go lines 156-196. A selection that is not an
  \<^verbatim>\<open>item\<close> panics; a title that matches no case leaves the switch and returns the
  model as it is.
\<close>

definition handleEnter :: "env \<Rightarrow> globals \<Rightarrow> Model \<Rightarrow> outcome" where
  "handleEnter env g m =
     (case state m of
        actionSelection \<Rightarrow>
          (case SelectedItem (list_m m) of
             None \<Rightarrow> Panic ''failed to cast list item to item; got: <nil>''
           | Some selected \<Rightarrow>
               if title selected = ActionID_String ACTION_FEE then
                 Step (fst (initFeeActionInput g m)) (snd (initFeeActionInput g m)) CmdNil
               else if title selected = ActionID_String ACTION_SWAP then
                 Panic (''not implemented yet: '' @ ActionID_String ACTION_SWAP)
               else if title selected = ''No more actions'' then
                 Step g (initForwardingSelection m) CmdNil
               else Step g m CmdNil)
      | feeActionInput \<Rightarrow> processFeeAction env g m
      | forwardingSelection \<Rightarrow>
          (case SelectedItem (list_m m) of
             None \<Rightarrow> Panic ''failed to cast list item to item; got: <nil>''
           | Some selected \<Rightarrow>
               if title selected = ProtocolID_String PROTOCOL_CCTP then
                 Step (fst (initCCTPForwardingInput g m)) (snd (initCCTPForwardingInput g m)) CmdNil
               else if title selected = ProtocolID_String PROTOCOL_IBC then
                 Panic (''not supported yet: '' @ ProtocolID_String PROTOCOL_IBC)
               else if title selected = ProtocolID_String PROTOCOL_HYPERLANE then
                 Panic (''not implemented yet: '' @ ProtocolID_String PROTOCOL_HYPERLANE)
               else if title selected = ProtocolID_String PROTOCOL_INTERNAL then
                 Step (fst (initInternalForwardingInput env g m))
                   (snd (initInternalForwardingInput env g m)) CmdNil
               else Step g m CmdNil)
      | cctpForwardingInput \<Rightarrow> processCCTPForwarding env g m
      | internalForwardingInput \<Rightarrow> processInternalForwarding env g m)"

text \<open>
  The part of \<^verbatim>\<open>Update\<close> after the message switch, ui_model.go lines 116-128: the
  message goes to the list or to the text fields of the current screen.
\<close>

definition updateScreen :: "env \<Rightarrow> globals \<Rightarrow> Model \<Rightarrow> Msg \<Rightarrow> outcome" where
  "updateScreen env g m msg =
     (case state m of
        actionSelection \<Rightarrow>
          Step g (m\<lparr>list_m := fst (list_Update env (list_m m) msg)\<rparr>)
            (snd (list_Update env (list_m m) msg))
      | forwardingSelection \<Rightarrow>
          Step g (m\<lparr>list_m := fst (list_Update env (list_m m) msg)\<rparr>)
            (snd (list_Update env (list_m m) msg))
      | feeActionInput \<Rightarrow>
          (case updateActionInputs env g m msg of
             (g1, inputs, cmd) \<Rightarrow> Step g1 (m\<lparr>actionInputs := inputs\<rparr>) cmd)
      | cctpForwardingInput \<Rightarrow>
          (case updateForwardingInputs env g m msg of
             (g1, inputs, cmd) \<Rightarrow> Step g1 (m\<lparr>forwardingInputs := inputs\<rparr>) cmd)
      | internalForwardingInput \<Rightarrow>
          (case updateForwardingInputs env g m msg of
             (g1, inputs, cmd) \<Rightarrow> Step g1 (m\<lparr>forwardingInputs := inputs\<rparr>) cmd))"

text \<open>
  \<^verbatim>\<open>Update\<close>, ui_model.go lines 98-129: a key whose string is \<^verbatim>\<open>ctrl+c\<close> or \<^verbatim>\<open>q\<close>
  quits, \<^verbatim>\<open>enter\<close> goes to \<^verbatim>\<open>handleEnter\<close>, a window size is stored; everything
  else goes to the current screen.
\<close>

definition Update :: "env \<Rightarrow> globals \<Rightarrow> Model \<Rightarrow> Msg \<Rightarrow> outcome" where
  "Update env g m msg =
     (case msg of
        KeyMsg k \<Rightarrow>
          if KeyString k = ''ctrl+c'' \<or> KeyString k = ''q'' then Step g m Quit
          else if KeyString k = ''enter'' then handleEnter env g m
          else updateScreen env g m msg
      | WindowSizeMsg w h \<Rightarrow>
          Step g
            (m\<lparr>windowWidth := w, windowHeight := h,
               list_m := (list_m m)\<lparr>listWidth := w, listHeight := h - 8\<rparr>\<rparr>)
            CmdNil
      | OtherMsg n \<Rightarrow> updateScreen env g m msg)"

text \<open>
  The two steps of \<^verbatim>\<open>Update\<close> that go to \<^verbatim>\<open>initInternalForwardingInput\<close> and
  \<^verbatim>\<open>processInternalForwarding\<close>, the handlers that are not among the sources: the
  enter key on the protocol list with the internal protocol selected, and the enter key
  on the screen of the internal forwarding.
\<close>

definition entersInternalForwarding :: "Model \<Rightarrow> Msg \<Rightarrow> bool" where
  "entersInternalForwarding m msg =
     (case msg of
        KeyMsg k \<Rightarrow>
          KeyString k = ''enter''
          \<and> (state m = internalForwardingInput
             \<or> (state m = forwardingSelection
                 \<and> (case SelectedItem (list_m m) of
                      None \<Rightarrow> False
                    | Some selected \<Rightarrow> title selected = ProtocolID_String PROTOCOL_INTERNAL)))
      | WindowSizeMsg w h \<Rightarrow> False
      | OtherMsg n \<Rightarrow> False)"

section \<open>The wizard state machine, second version (with the fee form)\<close>

text \<open>
  The second \<^verbatim>\<open>ui_model.go\<close> among the sources: \<^verbatim>\<open>InitialModel\<close> creates the fee
  form, \<^verbatim>\<open>handleEnter\<close> has no internal forwarding, and \<^verbatim>\<open>Update\<close> hands every
  message to the form while the state is \<open>feeActionInput\<close>, before it looks at the
  message. The names carry the suffix \<open>_form\<close>.
\<close>

definition InitialModel_form :: Model where
  "InitialModel_form = initFeeActionForm InitialModel"

definition handleEnter_form :: "env \<Rightarrow> globals \<Rightarrow> Model \<Rightarrow> outcome" where
  "handleEnter_form env g m =
     (case state m of
        actionSelection \<Rightarrow>
          (case SelectedItem (list_m m) of
             None \<Rightarrow> Panic ''failed to cast list item to item; got: <nil>''
           | Some selected \<Rightarrow>
               if title selected = ActionID_String ACTION_FEE then
                 Step (fst (initFeeActionInput g m)) (snd (initFeeActionInput g m)) CmdNil
               else if title selected = ActionID_String ACTION_SWAP then
                 Panic (''not implemented yet: '' @ ActionID_String ACTION_SWAP)
               else if title selected = ''No more actions'' then
                 Step g (initForwardingSelection m) CmdNil
               else Step g m CmdNil)
      | feeActionInput \<Rightarrow> processFeeAction env g m
      | forwardingSelection \<Rightarrow>
          (case SelectedItem (list_m m) of
             None \<Rightarrow> Panic ''failed to cast list item to item; got: <nil>''
           | Some selected \<Rightarrow>
               if title selected = ProtocolID_String PROTOCOL_CCTP then
                 Step (fst (initCCTPForwardingInput g m)) (snd (initCCTPForwardingInput g m)) CmdNil
               else if title selected = ProtocolID_String PROTOCOL_IBC then
                 Panic (''not supported yet: '' @ ProtocolID_String PROTOCOL_IBC)
               else if title selected = ProtocolID_String PROTOCOL_HYPERLANE then
                 Panic (''not implemented yet: '' @ ProtocolID_String PROTOCOL_HYPERLANE)
               else Step g m CmdNil)
      | cctpForwardingInput \<Rightarrow> processCCTPForwarding env g m
      | internalForwardingInput \<Rightarrow> Step g m CmdNil)"

text \<open>
  The fee-form branch of the second \<^verbatim>\<open>Update\<close> (lines 107-140 of that file). A
  \<^verbatim>\<open>nil\<close> form panics. The form's \<^verbatim>\<open>Update\<close> returns the form itself, so the type
  test succeeds. On completion the action is built from the form's values: the error of
  \<^verbatim>\<open>SetAttributes\<close> is not looked at, and \<^verbatim>\<open>uint32(GetInt(...))\<close> wraps.
\<close>

definition updateFeeForm :: "env \<Rightarrow> globals \<Rightarrow> Model \<Rightarrow> Msg \<Rightarrow> outcome" where
  "updateFeeForm env g m msg =
     (case feeActionForm m of
        None \<Rightarrow> Panic ''invalid memory address or nil pointer dereference''
      | Some form \<Rightarrow>
          (let res = fst (Form_Update env form msg);
               cmd = snd (Form_Update env form msg);
               m1 = m\<lparr>feeActionForm := Some res\<rparr>
           in
           if formState res = StateCompleted then
             (let temp =
                    fst (SetAttributes env \<lparr>actionId = ACTION_FEE, actionAttributes = None\<rparr>
                      \<lparr>FeesInfo =
                         [\<lparr>Recipient = GetString res ''fee_action_recipient'',
                           BasisPoints = word_of_int (GetInt res ''fee_action_basis_points'')\<rparr>]\<rparr>);
                  m2 = initFeeActionForm (m1\<lparr>state := actionSelection, actions := actions m1 @ [temp]\<rparr>)
              in Step g m2 (Batch [cmd, Form_Init env huh_NewForm]))
           else if formState res = StateAborted then
             Step g (initFeeActionForm (m1\<lparr>state := actionSelection\<rparr>))
               (Batch [cmd, Form_Init env huh_NewForm])
           else Step g m1 (Batch [cmd])))"

text \<open>The rest of the second \<^verbatim>\<open>Update\<close> (lines 142-170 of that file); the state
  switch has no case for the fee screen and panics in its default branch.\<close>

definition updateScreen_form :: "env \<Rightarrow> globals \<Rightarrow> Model \<Rightarrow> Msg \<Rightarrow> outcome" where
  "updateScreen_form env g m msg =
     (case state m of
        actionSelection \<Rightarrow>
          Step g (m\<lparr>list_m := fst (list_Update env (list_m m) msg)\<rparr>)
            (snd (list_Update env (list_m m) msg))
      | forwardingSelection \<Rightarrow>
          Step g (m\<lparr>list_m := fst (list_Update env (list_m m) msg)\<rparr>)
            (snd (list_Update env (list_m m) msg))
      | cctpForwardingInput \<Rightarrow>
          (case updateForwardingInputs env g m msg of
             (g1, inputs, cmd) \<Rightarrow> Step g1 (m\<lparr>forwardingInputs := inputs\<rparr>) cmd)
      | feeActionInput \<Rightarrow> Panic ''unhandled state''
      | internalForwardingInput \<Rightarrow> Panic ''unhandled state'')"

definition Update_form :: "env \<Rightarrow> globals \<Rightarrow> Model \<Rightarrow> Msg \<Rightarrow> outcome" where
  "Update_form env g m msg =
     (if state m = feeActionInput then updateFeeForm env g m msg
      else
        (case msg of
           KeyMsg k \<Rightarrow>
             if KeyString k = ''ctrl+c'' \<or> KeyString k = ''q'' then Step g m Quit
             else if KeyString k = ''enter'' then handleEnter_form env g m
             else updateScreen_form env g m msg
         | WindowSizeMsg w h \<Rightarrow>
             Step g
               (m\<lparr>windowWidth := w, windowHeight := h,
                  list_m := (list_m m)\<lparr>listWidth := w, listHeight := h - 8\<rparr>\<rparr>)
               CmdNil
         | OtherMsg n \<Rightarrow> updateScreen_form env g m msg))"

section \<open>The program (main)\<close>

text \<open>
  The event loop \<^verbatim>\<open>p.Run()\<close> of the terminal framework over the messages that
  arrive: it applies the update function to each message and stops when the returned
  command quits, returning the final model and no error; a panic of the update function
  ends it with an error. \<open>None\<close>: the messages ran out and the program is still
  waiting.
\<close>

fun quits :: "Cmd \<Rightarrow> bool" where
  "quits Quit = True"
| "quits (Batch cs) = (\<exists>c \<in> set cs. quits c)"
| "quits CmdNil = False"
| "quits Blink = False"
| "quits (ExtCmd n) = False"

fun Run :: "(globals \<Rightarrow> Model \<Rightarrow> Msg \<Rightarrow> outcome) \<Rightarrow> globals \<Rightarrow> Model \<Rightarrow> Msg list
              \<Rightarrow> (Model option \<times> error option) option" where
  "Run upd g m [] = None"
| "Run upd g m (msg # msgs) =
     (case upd g m msg of
        Panic s \<Rightarrow> Some (Some m, Some (Ext ''program was killed: program experienced a panic''))
      | Step g1 m1 cmd \<Rightarrow> if quits cmd then Some (Some m1, None) else Run upd g1 m1 msgs)"

text \<open>The same loop without the test for quitting: the result of the last of the
  messages, for looking at a session that is still running.\<close>

fun steps :: "(globals \<Rightarrow> Model \<Rightarrow> Msg \<Rightarrow> outcome) \<Rightarrow> globals \<Rightarrow> Model \<Rightarrow> Msg list \<Rightarrow> outcome" where
  "steps upd g m [] = Step g m CmdNil"
| "steps upd g m [msg] = upd g m msg"
| "steps upd g m (msg # msgs) =
     (case upd g m msg of Panic s \<Rightarrow> Panic s | Step g1 m1 cmd \<Rightarrow> steps upd g1 m1 msgs)"

text \<open>
  What \<^verbatim>\<open>main\<close> does with the result of \<^verbatim>\<open>p.Run()\<close> (lines 34-53 of the main
  file): an error goes to \<^verbatim>\<open>log.Fatal\<close>, which exits with status 1; otherwise the
  payload of the final model is printed with \<^verbatim>\<open>fmt.Println\<close> and \<^verbatim>\<open>main\<close> returns,
  which is exit status 0.
\<close>

record process_end =
  stdout :: string
  logged :: "error option"
  exitStatus :: int

definition main :: "Model option \<times> error option \<Rightarrow> process_end" where
  "main r =
     (case snd r of
        Some e \<Rightarrow> \<lparr>stdout = [], logged = Some e, exitStatus = 1\<rparr>
      | None \<Rightarrow>
          (case fst r of
             None \<Rightarrow> \<lparr>stdout = [], logged = None, exitStatus = 0\<rparr>
           | Some m \<Rightarrow> \<lparr>stdout = GetPayload m @ [CHR 0x0A], logged = None, exitStatus = 0\<rparr>))"

section \<open>A concrete environment\<close>

text \<open>
  An instance of the outside world, for evaluating the wizard on concrete inputs: the
  key names of the framework; a list that moves its cursor with the arrow keys; a text
  field that, when focused, appends the runes of a key event up to its character limit
  and deletes with backspace; a form that never changes; a schema library that accepts
  everything; the random stream 0, 1, 2, ...
\<close>

definition sample_list_Update :: "list_Model \<Rightarrow> Msg \<Rightarrow> list_Model \<times> Cmd" where
  "sample_list_Update l msg =
     (case msg of
        KeyMsg k \<Rightarrow>
          (if KeyString k = ''down'' \<and> listCursor l + 1 < length (listItems l)
           then (l\<lparr>listCursor := listCursor l + 1\<rparr>, CmdNil)
           else if KeyString k = ''up'' then (l\<lparr>listCursor := listCursor l - 1\<rparr>, CmdNil)
           else (l, CmdNil))
      | WindowSizeMsg w h \<Rightarrow> (l, CmdNil)
      | OtherMsg n \<Rightarrow> (l, CmdNil))"

definition sample_textinput_Update :: "textinput \<Rightarrow> Msg \<Rightarrow> textinput \<times> Cmd" where
  "sample_textinput_Update ti msg =
     (case msg of
        KeyMsg k \<Rightarrow>
          (if tiFocus ti then
             (if keyType k = KeyBackspace then (ti\<lparr>tiValue := butlast (tiValue ti)\<rparr>, CmdNil)
              else if CharLimit ti > 0 then
                (ti\<lparr>tiValue := take (nat (CharLimit ti)) (tiValue ti @ Runes k)\<rparr>, CmdNil)
              else (ti\<lparr>tiValue := tiValue ti @ Runes k\<rparr>, CmdNil))
           else (ti, CmdNil))
      | WindowSizeMsg w h \<Rightarrow> (ti, CmdNil)
      | OtherMsg n \<Rightarrow> (ti, CmdNil))"

definition sample_env :: env where
  "sample_env =
     \<lparr>Tab = ''tab'', ShiftTab = ''shift+tab'', Up = ''up'', Down = ''down'',
      list_Update = sample_list_Update,
      textinput_Update = sample_textinput_Update,
      Form_Update = (\<lambda>f msg. (f, CmdNil)),
      Form_Init = (\<lambda>f. CmdNil),
      FeeAttributes_Validate = (\<lambda>a. None),
      SetAttributes = (\<lambda>a attr. (a\<lparr>actionAttributes := Some attr\<rparr>, None)),
      Action_Validate = (\<lambda>a. None),
      NewCCTPForwarding = (\<lambda>d mr dc pp.
         Inr \<lparr>protocolId = PROTOCOL_CCTP, DestinationDomain = d, MintRecipient = mr,
              DestinationCaller = dc, PassthroughPayload = pp\<rparr>),
      buildFinalPayload = (\<lambda>f as. (''payload'', None)),
      randomByte = (\<lambda>i. word_of_nat i),
      updateActionInputs = (\<lambda>g m msg. (g, actionInputs m, CmdNil)),
      initInternalForwardingInput = (\<lambda>g m. (g, m)),
      processInternalForwarding = (\<lambda>g m. Step g m CmdNil)\<rparr>"

text \<open>The same environment with a payload assembly that fails.\<close>

definition failing_assembly_env :: env where
  "failing_assembly_env =
     sample_env\<lparr>buildFinalPayload := (\<lambda>f as. ([], Some (Ext ''invalid payload'')))\<rparr>"

text \<open>The same environment with a form that completes on any message, holding a
  recipient and a number of basis points.\<close>

definition completing_form_env :: env where
  "completing_form_env =
     sample_env\<lparr>Form_Update := (\<lambda>f msg.
        (f\<lparr>formState := StateCompleted,
           formStrings := [(''fee_action_recipient'', ''addr1'')],
           formInts := [(''fee_action_basis_points'', 100)]\<rparr>, CmdNil))\<rparr>"

text \<open>The environment of the completing form with a schema library whose
  \<^verbatim>\<open>SetAttributes\<close> fails and leaves the action as it was.\<close>

definition failing_SetAttributes_env :: env where
  "failing_SetAttributes_env =
     completing_form_env\<lparr>SetAttributes := (\<lambda>a attr. (a, Some (Ext ''cannot pack attributes'')))\<rparr>"

definition g0 :: globals where
  "g0 = \<lparr>focusIndex = 0, randomPos = 0\<rparr>"

text \<open>The CCTP screen as \<^verbatim>\<open>initCCTPForwardingInput\<close> sets it up on the model
  \<open>base\<close>, its four fields holding the given texts.\<close>

definition cctpScreen :: "Model \<Rightarrow> string list \<Rightarrow> Model" where
  "cctpScreen base vs =
     (let m = snd (initCCTPForwardingInput g0 (initForwardingSelection base))
      in m\<lparr>forwardingInputs := map2 (\<lambda>ti v. ti\<lparr>tiValue := v\<rparr>) (forwardingInputs m) vs\<rparr>)"

text \<open>The fee screen of the first version, its two fields holding the given texts.\<close>

definition feeScreen :: "Model \<Rightarrow> string list \<Rightarrow> Model" where
  "feeScreen base vs =
     (let m = snd (initFeeActionInput g0 base)
      in m\<lparr>actionInputs := map2 (\<lambda>ti v. ti\<lparr>tiValue := v\<rparr>) (actionInputs m) vs\<rparr>)"

text \<open>The trimmed text of a field of the forwarding screen, as
  \<^verbatim>\<open>processCCTPForwarding\<close> reads it (forwarding.go lines 129-132).\<close>

definition fieldText :: "Model \<Rightarrow> nat \<Rightarrow> string" where
  "fieldText m i = TrimSpace (tiValue (forwardingInputs m ! i))"

text \<open>Key events: a named key, typed runes and pasted runes.\<close>

definition key :: "KeyType \<Rightarrow> Msg" where
  "key t = KeyMsg \<lparr>keyType = t, Runes = [], Alt = False, Paste = False\<rparr>"

definition typed :: "string \<Rightarrow> Msg" where
  "typed s = KeyMsg \<lparr>keyType = KeyRunes, Runes = s, Alt = False, Paste = False\<rparr>"

definition pasted :: "string \<Rightarrow> Msg" where
  "pasted s = KeyMsg \<lparr>keyType = KeyRunes, Runes = s, Alt = False, Paste = True\<rparr>"

text \<open>A forwarding as the concrete environment's constructor builds it.\<close>

definition cctpForwardingOf :: "32 word \<Rightarrow> byte list \<Rightarrow> byte list \<Rightarrow> byte list \<Rightarrow> Forwarding" where
  "cctpForwardingOf d mr dc pp =
     \<lparr>protocolId = PROTOCOL_CCTP, DestinationDomain = d, MintRecipient = mr,
      DestinationCaller = dc, PassthroughPayload = pp\<rparr>"

text \<open>The events of a session without actions that reaches the CCTP screen, types the
  domain 0 and the mint recipient 0x01, and submits.\<close>

definition cctpSession :: "Msg list" where
  "cctpSession =
     [key KeyDown, key KeyDown, key KeyEnter, key KeyEnter,
      typed ''0'', key KeyTab, typed ''0x01'', key KeyEnter]"

text \<open>The events of a session that puts the random sentinel in both address fields and
  pastes the letter q into the passthrough field before submitting.\<close>

definition pasteSession :: "Msg list" where
  "pasteSession =
     [key KeyDown, key KeyDown, key KeyEnter, key KeyEnter,
      typed ''0'', key KeyTab, typed ''r'', key KeyTab, typed ''r'', key KeyTab,
      pasted ''q'', key KeyEnter]"

text \<open>The fee action of the specification's example: recipient \<open>addr1\<close>, 100 basis
  points.\<close>

definition feeExampleAction :: Action where
  "feeExampleAction =
     \<lparr>actionId = ACTION_FEE,
      actionAttributes = Some \<lparr>FeesInfo = [\<lparr>Recipient = ''addr1'', BasisPoints = 100\<rparr>]\<rparr>\<rparr>"

section \<open>Basis points\<close>

lemma validateBPS_cases:
  "validateBPS b =
     (if b = 0 then Some (New ''fee basis point cannot be zero'')
      else if 10000 < b then Some (BPSTooHigh 10000) else None)"
  by (simp add: validateBPS_def BPSNormalizer_def)

lemma validateBPS_errors_distinct:
  "New ''fee basis point cannot be zero'' \<noteq> BPSTooHigh 10000"
  by simp

lemma validateBPS_ok_iff: "validateBPS b = None \<longleftrightarrow> b \<noteq> 0 \<and> b \<le> 10000"
  by (simp add: validateBPS_cases)

text \<open>
  C4. The claim asks that the validator succeed exactly on \<open>0 < b \<le> 10000\<close>. The
  function tests \<open>b = 0\<close> and \<open>b > 10000\<close> only, so a negative value is accepted: at
  \<open>b = -1\<close> it returns no error although \<open>0 < b\<close> fails.
\<close>

theorem validateBPS_accepts_negative:
  "validateBPS (- 1) = None \<and> \<not> (0 < (- 1 :: int) \<and> (- 1 :: int) \<le> 10000)"
  by (simp add: validateBPS_cases)

section \<open>Left padding\<close>

text \<open>
  C5. For every byte sequence of at most 32 bytes, \<open>leftPadIfRequired\<close> returns a
  32-byte sequence whose trailing \<open>length x\<close> bytes are \<open>x\<close> and whose leading
  \<open>32 - length x\<close> bytes are zero; for a longer one it fails with the too-long error.
\<close>

theorem leftPadIfRequired_pads_or_rejects:
  "(length x \<le> 32 \<longrightarrow>
      (\<exists>y. leftPadIfRequired x = Inr y \<and> length y = 32
          \<and> drop (32 - length x) y = x
          \<and> take (32 - length x) y = replicate (32 - length x) 0))
   \<and> (32 < length x \<longrightarrow> leftPadIfRequired x = Inl (TooLong (length x)))"
  by (auto simp: leftPadIfRequired_def Let_def)

theorem leftPadIfRequired_pads_or_rejects_witness:
  "length [1, 2, 3 :: byte] \<le> 32
   \<and> (\<exists>y. leftPadIfRequired [1, 2, 3] = Inr y \<and> length y = 32
          \<and> drop (32 - length [1, 2, 3 :: byte]) y = [1, 2, 3]
          \<and> take (32 - length [1, 2, 3 :: byte]) y = replicate (32 - length [1, 2, 3 :: byte]) 0)
   \<and> 32 < length (replicate 33 (7 :: byte))
   \<and> leftPadIfRequired (replicate 33 7) = Inl (TooLong (length (replicate 33 (7 :: byte))))"
  using leftPadIfRequired_pads_or_rejects [of "[1, 2, 3]"]
        leftPadIfRequired_pads_or_rejects [of "replicate 33 7"]
  by simp

section \<open>The decoders undo the encoders\<close>

lemma fromHexChar_table: "map fromHexChar hextable = map Some [0..<16]"
  by code_simp

lemma fromHexChar_hextable: "n < 16 \<Longrightarrow> fromHexChar (hextable ! n) = Some n"
proof -
  assume n: "n < 16"
  have len: "length hextable = 16" by (simp add: hextable_def)
  have "fromHexChar (hextable ! n) = map fromHexChar hextable ! n"
    using n len by simp
  also have "\<dots> = map Some [0..<16] ! n"
    by (simp only: fromHexChar_table)
  also have "\<dots> = Some n"
    using n by (simp del: upt.simps upt_rec_numeral)
  finally show ?thesis .
qed

lemma unat_byte_less: "unat (b :: byte) < 256"
  using unsigned_less [of b, where ?'a = nat] by simp

lemma hex_roundtrip: "hex_DecodeString (hex_EncodeToString bs) = Inr bs"
proof (induction bs)
  case Nil
  then show ?case by (simp add: hex_EncodeToString_def)
next
  case (Cons b bs)
  have hi: "unat b div 16 < 16"
    using unat_byte_less [of b] by linarith
  have lo: "unat b mod 16 < 16" by simp
  from Cons show ?case
    by (simp add: hex_EncodeToString_def fromHexChar_hextable [OF hi] fromHexChar_hextable [OF lo])
qed

lemma hexutil_roundtrip: "hexutil_Decode (hexutil_Encode bs) = Inr bs"
  by (simp add: hexutil_Decode_def hexutil_Encode_def has0xPrefix_def hex_roundtrip)

lemma prefix_hexutil_Encode: "prefix ''0x'' (hexutil_Encode bs)"
  by (simp add: hexutil_Encode_def)

lemma pos_nth: "distinct ys \<Longrightarrow> n < length ys \<Longrightarrow> pos (ys ! n) ys = Some n"
proof (induction ys arbitrary: n)
  case Nil
  then show ?case by simp
next
  case (Cons y ys)
  show ?case
  proof (cases n)
    case 0
    then show ?thesis by simp
  next
    case (Suc k)
    with Cons.prems have "k < length ys" "distinct ys" "ys ! k \<noteq> y"
      by auto
    with Cons.IH [of k] Suc show ?thesis by simp
  qed
qed

lemma distinct_encodeStd: "distinct encodeStd"
  unfolding encodeStd_def by simp

lemma length_encodeStd: "length encodeStd = 64"
  unfolding encodeStd_def by simp

lemma decodeMap_encodeStd: "n < 64 \<Longrightarrow> decodeMap (encodeStd ! n) = Some n"
  unfolding decodeMap_def by (rule pos_nth) (simp_all add: distinct_encodeStd length_encodeStd)

lemma decodeMap_pad: "decodeMap CHR ''='' = None"
  by (simp add: decodeMap_def encodeStd_def)

lemma isNewline_pad: "\<not> isNewline CHR ''=''"
  by (simp add: isNewline_def)

text \<open>A 24-bit value is the sum of its four 6-bit digits.\<close>

lemma sextets_sum:
  fixes V :: nat
  assumes "V < 16777216"
  shows "V div 262144 mod 64 * 262144 + V div 4096 mod 64 * 4096
           + V div 64 mod 64 * 64 + V mod 64 = V"
proof -
  have a: "V mod 4096 = 64 * (V div 64 mod 64) + V mod 64"
    using mod_mult2_eq [of V 64 64] by simp
  have b: "V mod 262144 = 4096 * (V div 4096 mod 64) + V mod 4096"
    using mod_mult2_eq [of V 4096 64] by simp
  have c: "V mod 16777216 = 262144 * (V div 262144 mod 64) + V mod 262144"
    using mod_mult2_eq [of V 262144 64] by simp
  have d: "V mod 16777216 = V"
    using assms by simp
  from a b c d show ?thesis by linarith
qed

lemma byte_eqI: "n mod 256 = unat (b :: byte) \<Longrightarrow> word_of_nat n = b"
proof -
  assume "n mod 256 = unat b"
  then have "take_bit LENGTH(8) n = take_bit LENGTH(8) (unat b)"
    by (simp add: take_bit_eq_mod)
  then have "(word_of_nat n :: byte) = word_of_nat (unat b)"
    by (simp only: word_of_nat_eq_iff)
  then show ?thesis by simp
qed

lemma split_low_byte:
  fixes H C :: nat
  assumes "C < 256"
  shows "(H * 256 + C) div 256 = H" and "(H * 256 + C) mod 256 = C"
  using assms by simp_all

lemma quantumBytes_4:
  assumes "d0 * 262144 + d1 * 4096 + d2 * 64 + d3 = V"
  shows "quantumBytes [d0, d1, d2, d3]
           = [word_of_nat (V div 65536), word_of_nat (V div 256), word_of_nat V]"
  by (simp add: quantumBytes_def Let_def flip: assms)

lemma quantumBytes_3:
  assumes "d0 * 262144 + d1 * 4096 + d2 * 64 = V"
  shows "quantumBytes [d0, d1, d2] = [word_of_nat (V div 65536), word_of_nat (V div 256)]"
  by (simp add: quantumBytes_def Let_def flip: assms)

lemma quantumBytes_2:
  assumes "d0 * 262144 + d1 * 4096 = V"
  shows "quantumBytes [d0, d1] = [word_of_nat (V div 65536)]"
  by (simp add: quantumBytes_def Let_def flip: assms)

lemma quantumBytes_full:
  fixes a b c :: byte
  defines "V \<equiv> unat a * 65536 + unat b * 256 + unat c"
  shows "quantumBytes [V div 262144 mod 64, V div 4096 mod 64, V div 64 mod 64, V mod 64]
           = [a, b, c]"
proof -
  have A: "unat a < 256" and B: "unat b < 256" and C: "unat c < 256"
    by (rule unat_byte_less)+
  have V: "V < 16777216" using A B C by (simp add: V_def)
  have V': "V = (unat a * 256 + unat b) * 256 + unat c" by (simp add: V_def)
  have d1: "V div 256 = unat a * 256 + unat b"
    unfolding V' by (rule split_low_byte [OF C])
  have 3: "V mod 256 = unat c"
    unfolding V' by (rule split_low_byte [OF C])
  have 2: "(V div 256) mod 256 = unat b"
    unfolding d1 by (rule split_low_byte [OF B])
  have "V div 65536 = V div 256 div 256"
    by (simp add: div_mult2_eq [symmetric])
  also have "\<dots> = unat a"
    unfolding d1 by (rule split_low_byte [OF B])
  finally have 1: "(V div 65536) mod 256 = unat a" using A by simp
  show ?thesis
    by (simp only: quantumBytes_4 [OF sextets_sum [OF V]]
          byte_eqI [OF 1] byte_eqI [OF 2] byte_eqI [OF 3])
qed

lemma quantumBytes_two:
  fixes a b :: byte
  defines "V \<equiv> unat a * 65536 + unat b * 256"
  shows "quantumBytes [V div 262144 mod 64, V div 4096 mod 64, V div 64 mod 64] = [a, b]"
proof -
  have A: "unat a < 256" and B: "unat b < 256"
    by (rule unat_byte_less)+
  have V: "V < 16777216" using A B by (simp add: V_def)
  have "V = (unat a * 1024 + unat b * 4) * 64" by (simp add: V_def)
  then have z: "V mod 64 = 0" by simp
  have V': "V = (unat a * 256 + unat b) * 256 + 0" by (simp add: V_def)
  have d1: "V div 256 = unat a * 256 + unat b"
    unfolding V' by (rule split_low_byte) simp
  have 2: "(V div 256) mod 256 = unat b"
    unfolding d1 by (rule split_low_byte [OF B])
  have "V div 65536 = V div 256 div 256"
    by (simp add: div_mult2_eq [symmetric])
  also have "\<dots> = unat a"
    unfolding d1 by (rule split_low_byte [OF B])
  finally have 1: "(V div 65536) mod 256 = unat a" using A by simp
  have s: "V div 262144 mod 64 * 262144 + V div 4096 mod 64 * 4096 + V div 64 mod 64 * 64 = V"
    using sextets_sum [OF V] z by linarith
  show ?thesis
    by (simp only: quantumBytes_3 [OF s] byte_eqI [OF 1] byte_eqI [OF 2])
qed

lemma quantumBytes_one:
  fixes a :: byte
  defines "V \<equiv> unat a * 65536"
  shows "quantumBytes [V div 262144 mod 64, V div 4096 mod 64] = [a]"
proof -
  have A: "unat a < 256" by (rule unat_byte_less)
  have V: "V < 16777216" using A by (simp add: V_def)
  have "V = (unat a * 1024) * 64" by (simp add: V_def)
  then have z: "V mod 64 = 0" by simp
  have "V = (unat a * 16) * 64 * 64" by (simp add: V_def)
  then have "V div 64 = (unat a * 16) * 64" by simp
  then have y: "V div 64 mod 64 = 0" by simp
  have "V div 65536 = unat a" by (simp add: V_def)
  then have 1: "(V div 65536) mod 256 = unat a" using A by simp
  have s: "V div 262144 mod 64 * 262144 + V div 4096 mod 64 * 4096 = V"
    using sextets_sum [OF V] z y by linarith
  show ?thesis
    by (simp only: quantumBytes_2 [OF s] byte_eqI [OF 1])
qed

lemma decodeQuanta_full:
  assumes "s0 < 64" "s1 < 64" "s2 < 64" "s3 < 64"
  shows "decodeQuanta [] (encodeStd ! s0 # encodeStd ! s1 # encodeStd ! s2 # encodeStd ! s3 # rest)
           = (case decodeQuanta [] rest of
                Inl e \<Rightarrow> Inl e
              | Inr bs \<Rightarrow> Inr (quantumBytes [s0, s1, s2, s3] @ bs))"
  using assms by (simp add: decodeMap_encodeStd split: sum.splits)

lemma decodeQuanta_pad1:
  assumes "s0 < 64" "s1 < 64" "s2 < 64"
  shows "decodeQuanta [] [encodeStd ! s0, encodeStd ! s1, encodeStd ! s2, CHR ''='']
           = Inr (quantumBytes [s0, s1, s2])"
  using assms by (simp add: decodeMap_encodeStd decodeMap_pad isNewline_pad)

lemma decodeQuanta_pad2:
  assumes "s0 < 64" "s1 < 64"
  shows "decodeQuanta [] [encodeStd ! s0, encodeStd ! s1, CHR ''='', CHR ''='']
           = Inr (quantumBytes [s0, s1])"
  using assms by (simp add: decodeMap_encodeStd decodeMap_pad isNewline_pad)

lemma base64_enc_one:
  "base64_EncodeToString [a] =
     [encodeStd ! (unat a * 65536 div 262144 mod 64), encodeStd ! (unat a * 65536 div 4096 mod 64),
      CHR ''='', CHR ''='']"
  by (simp add: Let_def)

lemma base64_enc_two:
  "base64_EncodeToString [a, b] =
     [encodeStd ! ((unat a * 65536 + unat b * 256) div 262144 mod 64),
      encodeStd ! ((unat a * 65536 + unat b * 256) div 4096 mod 64),
      encodeStd ! ((unat a * 65536 + unat b * 256) div 64 mod 64), CHR ''='']"
  by (simp add: Let_def)

lemma base64_enc_three:
  "base64_EncodeToString (a # b # c # rest) =
     encodeStd ! ((unat a * 65536 + unat b * 256 + unat c) div 262144 mod 64)
     # encodeStd ! ((unat a * 65536 + unat b * 256 + unat c) div 4096 mod 64)
     # encodeStd ! ((unat a * 65536 + unat b * 256 + unat c) div 64 mod 64)
     # encodeStd ! ((unat a * 65536 + unat b * 256 + unat c) mod 64)
     # base64_EncodeToString rest"
  by (simp add: Let_def)

lemma base64_roundtrip: "base64_DecodeString (base64_EncodeToString bs) = Inr bs"
  unfolding base64_DecodeString_def
proof (induction bs rule: base64_EncodeToString.induct)
  case 1
  show ?case by simp
next
  case (2 a)
  have "decodeQuanta [] (base64_EncodeToString [a])
          = Inr (quantumBytes [unat a * 65536 div 262144 mod 64, unat a * 65536 div 4096 mod 64])"
    unfolding base64_enc_one by (rule decodeQuanta_pad2) simp_all
  then show ?case by (simp only: quantumBytes_one)
next
  case (3 a b)
  have "decodeQuanta [] (base64_EncodeToString [a, b])
          = Inr (quantumBytes [(unat a * 65536 + unat b * 256) div 262144 mod 64,
                               (unat a * 65536 + unat b * 256) div 4096 mod 64,
                               (unat a * 65536 + unat b * 256) div 64 mod 64])"
    unfolding base64_enc_two by (rule decodeQuanta_pad1) simp_all
  then show ?case by (simp only: quantumBytes_two)
next
  case (4 a b c rest)
  have "decodeQuanta [] (base64_EncodeToString (a # b # c # rest))
          = (case decodeQuanta [] (base64_EncodeToString rest) of
               Inl e \<Rightarrow> Inl e
             | Inr bs \<Rightarrow>
                 Inr (quantumBytes [(unat a * 65536 + unat b * 256 + unat c) div 262144 mod 64,
                                    (unat a * 65536 + unat b * 256 + unat c) div 4096 mod 64,
                                    (unat a * 65536 + unat b * 256 + unat c) div 64 mod 64,
                                    (unat a * 65536 + unat b * 256 + unat c) mod 64] @ bs))"
    unfolding base64_enc_three by (rule decodeQuanta_full) simp_all
  then show ?case
    by (simp only: quantumBytes_full "4.IH" sum.case append_Cons append_Nil)
qed

lemma leftPadIfRequired_short:
  "length x \<le> 32 \<Longrightarrow> leftPadIfRequired x = Inr (replicate (32 - length x) 0 @ x)"
  by (auto simp: leftPadIfRequired_def Let_def)

text \<open>
  C9. The claim: for every byte sequence of at most 32 bytes, its 0x-prefixed
  hexadecimal string and its standard base64 string decode to the same 32 bytes. The
  decoder chooses by the prefix alone, so the claim fails for a sequence whose base64
  string itself begins with \<open>0x\<close>: the three bytes D3 10 01 have the base64 string
  \<open>0xAB\<close>, which is read as the hexadecimal byte AB. Amended: the two strings decode to
  the same bytes, the sequence left-padded to 32, whenever the base64 string does not
  begin with \<open>0x\<close>.
\<close>

theorem cross_encoding_equivalence:
  assumes "length x \<le> 32" and "\<not> prefix ''0x'' (base64_EncodeToString x)"
  shows "decodeHexOrBase64To32Bytes (hexutil_Encode x)
           = decodeHexOrBase64To32Bytes (base64_EncodeToString x)
         \<and> decodeHexOrBase64To32Bytes (base64_EncodeToString x)
           = Inr (replicate (32 - length x) 0 @ x)"
  using assms
  by (simp add: decodeHexOrBase64To32Bytes_def prefix_hexutil_Encode hexutil_roundtrip
        base64_roundtrip leftPadIfRequired_short)

lemma base64_of_1_2_3: "base64_EncodeToString [1, 2, 3 :: byte] = ''AQID''"
  by (simp add: encodeStd_def)

theorem cross_encoding_equivalence_witness:
  "length [1, 2, 3 :: byte] \<le> 32
   \<and> base64_EncodeToString [1, 2, 3 :: byte] = ''AQID''
   \<and> decodeHexOrBase64To32Bytes (hexutil_Encode [1, 2, 3])
       = decodeHexOrBase64To32Bytes (base64_EncodeToString [1, 2, 3])
   \<and> decodeHexOrBase64To32Bytes (base64_EncodeToString [1, 2, 3])
       = Inr (replicate (32 - length [1, 2, 3 :: byte]) 0 @ [1, 2, 3])"
  using cross_encoding_equivalence [of "[1, 2, 3]"] base64_of_1_2_3
  by simp

theorem cross_encoding_counterexample:
  "length [0xD3, 0x10, 0x01 :: byte] \<le> 32
   \<and> hexutil_Encode [0xD3, 0x10, 0x01] = ''0xd31001''
   \<and> base64_EncodeToString [0xD3, 0x10, 0x01] = ''0xAB''
   \<and> decodeHexOrBase64To32Bytes ''0xd31001'' = Inr (replicate 29 0 @ [0xD3, 0x10, 0x01])
   \<and> decodeHexOrBase64To32Bytes ''0xAB'' = Inr (replicate 31 0 @ [0xAB])
   \<and> decodeHexOrBase64To32Bytes (hexutil_Encode [0xD3, 0x10, 0x01])
       \<noteq> decodeHexOrBase64To32Bytes (base64_EncodeToString [0xD3, 0x10, 0x01])"
  by (simp add: hexutil_Encode_def hex_EncodeToString_def hextable_def encodeStd_def
        decodeHexOrBase64To32Bytes_def hexutil_Decode_def has0xPrefix_def fromHexChar_def
        leftPadIfRequired_def)

section \<open>Fields the screens' set-up functions keep\<close>

lemma initActionSelection_fields:
  "actions (initActionSelection m) = actions m"
  "state (initActionSelection m) = actionSelection"
  "forwarding (initActionSelection m) = forwarding m"
  by (simp_all add: initActionSelection_def Let_def)

lemma initForwardingSelection_fields:
  "actions (initForwardingSelection m) = actions m"
  "state (initForwardingSelection m) = forwardingSelection"
  "forwarding (initForwardingSelection m) = forwarding m"
  by (simp_all add: initForwardingSelection_def Let_def)

lemma initFeeActionInput_fields:
  "actions (snd (initFeeActionInput g m)) = actions m"
  "state (snd (initFeeActionInput g m)) = feeActionInput"
  "forwarding (snd (initFeeActionInput g m)) = forwarding m"
  by (simp_all add: initFeeActionInput_def Let_def)

lemma initCCTPForwardingInput_fields:
  "actions (snd (initCCTPForwardingInput g m)) = actions m"
  "state (snd (initCCTPForwardingInput g m)) = cctpForwardingInput"
  "forwarding (snd (initCCTPForwardingInput g m)) = forwarding m"
  by (simp_all add: initCCTPForwardingInput_def Let_def)

lemmas init_fields =
  initActionSelection_fields initForwardingSelection_fields initFeeActionInput_fields
  initCCTPForwardingInput_fields

section \<open>Outcomes of the two submissions\<close>

lemma processFeeAction_result:
  assumes "processFeeAction env g m = Step g' m' c"
  shows "g' = g \<and> c = CmdNil \<and>
         ((\<exists>e. m' = m\<lparr>err := Some e\<rparr>)
          \<or> (\<exists>a. m' = initActionSelection (m\<lparr>actions := actions m @ [a]\<rparr>)))"
  using assms unfolding processFeeAction_def Let_def
  by (auto split: if_splits sum.splits option.splits prod.splits)

lemma processFeeAction_actions:
  assumes "processFeeAction env g m = Step g' m' c"
  shows "(actions m' = actions m \<and> forwarding m' = forwarding m)
         \<or> (state m' = actionSelection \<and> forwarding m' = forwarding m
             \<and> (\<exists>a. actions m' = actions m @ [a]))"
  using processFeeAction_result [OF assms] by (auto simp: init_fields)

text \<open>
  A fee submission of the first version that changes the action list has passed every
  check: both fields are filled, the basis points parse, the schema library accepts the
  attributes, \<^verbatim>\<open>SetAttributes\<close> succeeds and the library accepts the action; the
  action appended is the one \<^verbatim>\<open>SetAttributes\<close> returned.
\<close>

lemma processFeeAction_append_validated:
  assumes "processFeeAction env g m = Step g' m' c"
      and "actions m' \<noteq> actions m"
  shows "\<exists>n a. TrimSpace (tiValue (actionInputs m ! 0)) \<noteq> []
           \<and> ParseUint10 (TrimSpace (tiValue (actionInputs m ! 1))) 32 = Inr n
           \<and> FeeAttributes_Validate env
                \<lparr>FeesInfo = [\<lparr>Recipient = TrimSpace (tiValue (actionInputs m ! 0)),
                              BasisPoints = word_of_nat n\<rparr>]\<rparr> = None
           \<and> SetAttributes env \<lparr>actionId = ACTION_FEE, actionAttributes = None\<rparr>
                \<lparr>FeesInfo = [\<lparr>Recipient = TrimSpace (tiValue (actionInputs m ! 0)),
                              BasisPoints = word_of_nat n\<rparr>]\<rparr> = (a, None)
           \<and> Action_Validate env a = None
           \<and> g' = g \<and> c = CmdNil
           \<and> m' = initActionSelection (m\<lparr>actions := actions m @ [a]\<rparr>)"
  using assms unfolding processFeeAction_def Let_def
  by (auto split: if_splits sum.splits option.splits prod.splits)

lemma finishCCTPForwarding_result:
  assumes "finishCCTPForwarding env g m d mr dc pp = Step g' m' c"
  shows "(\<exists>e. c = CmdNil \<and> m' = m\<lparr>err := Some e\<rparr>)
         \<or> (\<exists>f p. c = Quit \<and> m' = m\<lparr>forwarding := Some f, payload := p\<rparr>
               \<and> NewCCTPForwarding env d mr dc pp = Inr f
               \<and> buildFinalPayload env f (actions m) = (p, None))
         \<or> (\<exists>f p e. c = CmdNil
               \<and> m' = m\<lparr>forwarding := Some f, payload := p,
                          err := Some (Wrapf ''failed to build finalPayload'' e)\<rparr>
               \<and> NewCCTPForwarding env d mr dc pp = Inr f
               \<and> buildFinalPayload env f (actions m) = (p, Some e))"
  using assms unfolding finishCCTPForwarding_def
  by (auto split: sum.splits option.splits prod.splits)

text \<open>
  A CCTP submission that gets past its checks hands the constructor what the four
  fields gave: the parsed domain, for each address field the random bytes or the
  decoded bytes (the destination caller may be empty), and the bytes of the passthrough
  field.
\<close>

lemma processCCTPForwarding_args:
  assumes "processCCTPForwarding env g m = Step g' m' c"
  shows "(c = CmdNil \<and> (m' = m \<or> (\<exists>e. m' = m\<lparr>err := Some e\<rparr>)))
         \<or> (\<exists>n mr dc g2.
               ParseUint10 (fieldText m 0) 32 = Inr n
               \<and> (fieldText m 1 = ''r'' \<and> mr = fst (RandomBytes env g 32)
                  \<or> decodeHexOrBase64To32Bytes (fieldText m 1) = Inr mr)
               \<and> (fieldText m 2 = ''r''
                    \<and> dc = fst (RandomBytes env
                                 (if fieldText m 1 = ''r'' then snd (RandomBytes env g 32) else g) 32)
                  \<or> fieldText m 2 = [] \<and> dc = []
                  \<or> decodeHexOrBase64To32Bytes (fieldText m 2) = Inr dc)
               \<and> finishCCTPForwarding env g2 m (word_of_nat n) mr dc
                    (map of_char (fieldText m 3)) = Step g' m' c)"
  using assms unfolding processCCTPForwarding_def fieldText_def Let_def
  by (auto split: if_splits sum.splits option.splits prod.splits)

lemma processCCTPForwarding_cases:
  assumes "processCCTPForwarding env g m = Step g' m' c"
  shows "(c = CmdNil \<and> (m' = m \<or> (\<exists>e. m' = m\<lparr>err := Some e\<rparr>)))
         \<or> (\<exists>g1 d mr dc pp. finishCCTPForwarding env g1 m d mr dc pp = Step g' m' c)"
  using processCCTPForwarding_args [OF assms] by blast

lemma processCCTPForwarding_result:
  assumes "processCCTPForwarding env g m = Step g' m' c"
  shows "(c = CmdNil \<and> (m' = m \<or> (\<exists>e. m' = m\<lparr>err := Some e\<rparr>)))
         \<or> (\<exists>f p. c = Quit \<and> m' = m\<lparr>forwarding := Some f, payload := p\<rparr>
               \<and> buildFinalPayload env f (actions m) = (p, None))
         \<or> (\<exists>f p e. c = CmdNil
               \<and> m' = m\<lparr>forwarding := Some f, payload := p,
                          err := Some (Wrapf ''failed to build finalPayload'' e)\<rparr>
               \<and> buildFinalPayload env f (actions m) = (p, Some e))"
  using processCCTPForwarding_cases [OF assms] finishCCTPForwarding_result
  by metis

lemma processCCTPForwarding_actions:
  assumes "processCCTPForwarding env g m = Step g' m' c"
  shows "actions m' = actions m"
  using processCCTPForwarding_result [OF assms] by auto

section \<open>What one update step can change\<close>

text \<open>
  The fee form of the second version: the action list changes only in the step in which
  the form reports completion, by the one action built from the form's values.
\<close>

lemma updateFeeForm_actions:
  assumes "updateFeeForm env g m msg = Step g' m' c"
  shows "(actions m' = actions m
          \<or> (\<exists>form. feeActionForm m = Some form
                \<and> formState (fst (Form_Update env form msg)) = StateCompleted
                \<and> state m' = actionSelection
                \<and> actions m' = actions m @
                     [fst (SetAttributes env \<lparr>actionId = ACTION_FEE, actionAttributes = None\<rparr>
                        \<lparr>FeesInfo =
                           [\<lparr>Recipient = GetString (fst (Form_Update env form msg))
                                           ''fee_action_recipient'',
                             BasisPoints = word_of_int
                               (GetInt (fst (Form_Update env form msg))
                                  ''fee_action_basis_points'')\<rparr>]\<rparr>)]))
         \<and> forwarding m' = forwarding m"
  using assms unfolding updateFeeForm_def Let_def initFeeActionForm_def
  by (auto split: option.splits if_splits)

lemma updateScreen_form_frame:
  assumes "updateScreen_form env g m msg = Step g' m' c"
  shows "actions m' = actions m \<and> forwarding m' = forwarding m"
  using assms unfolding updateScreen_form_def
  by (auto split: state.splits prod.splits)

lemma updateScreen_frame:
  assumes "updateScreen env g m msg = Step g' m' c"
  shows "actions m' = actions m \<and> forwarding m' = forwarding m"
  using assms unfolding updateScreen_def
  by (auto split: state.splits prod.splits)

lemma handleEnter_form_frame:
  assumes "handleEnter_form env g m = Step g' m' c"
  shows "(actions m' = actions m
          \<or> (state m = feeActionInput \<and> processFeeAction env g m = Step g' m' c))
         \<and> (forwarding m' = forwarding m
            \<or> (state m = cctpForwardingInput \<and> processCCTPForwarding env g m = Step g' m' c))"
proof (cases "state m")
  case actionSelection
  with assms show ?thesis
    unfolding handleEnter_form_def
    by (auto simp: init_fields split: option.splits if_splits)
next
  case feeActionInput
  with assms have p: "processFeeAction env g m = Step g' m' c"
    by (simp add: handleEnter_form_def)
  from processFeeAction_actions [OF p] p feeActionInput show ?thesis by auto
next
  case forwardingSelection
  with assms show ?thesis
    unfolding handleEnter_form_def
    by (auto simp: init_fields split: option.splits if_splits)
next
  case cctpForwardingInput
  with assms have p: "processCCTPForwarding env g m = Step g' m' c"
    by (simp add: handleEnter_form_def)
  from processCCTPForwarding_actions [OF p] p cctpForwardingInput show ?thesis by simp
next
  case internalForwardingInput
  with assms show ?thesis by (simp add: handleEnter_form_def)
qed

text \<open>
  One step of the second version changes the forwarding only as the submission of the
  CCTP screen does, on the enter key; it changes the action list only when the fee form
  completes.
\<close>

lemma Update_form_frame:
  assumes "Update_form env g m msg = Step g' m' c"
  shows "(actions m' = actions m
          \<or> (state m = feeActionInput \<and> updateFeeForm env g m msg = Step g' m' c))
         \<and> (forwarding m' = forwarding m
            \<or> (state m = cctpForwardingInput
                \<and> (\<exists>k. msg = KeyMsg k \<and> KeyString k = ''enter'')
                \<and> processCCTPForwarding env g m = Step g' m' c))"
proof (cases "state m = feeActionInput")
  case True
  with assms have u: "updateFeeForm env g m msg = Step g' m' c"
    by (simp add: Update_form_def)
  from updateFeeForm_actions [OF u] u True show ?thesis by simp
next
  case False
  show ?thesis
  proof (cases msg)
    case (KeyMsg k)
    consider (quit) "KeyString k = ''ctrl+c'' \<or> KeyString k = ''q''"
      | (enter) "\<not> (KeyString k = ''ctrl+c'' \<or> KeyString k = ''q'')" "KeyString k = ''enter''"
      | (other) "\<not> (KeyString k = ''ctrl+c'' \<or> KeyString k = ''q'')" "KeyString k \<noteq> ''enter''"
      by blast
    then show ?thesis
    proof cases
      case quit
      with assms False KeyMsg show ?thesis by (auto simp: Update_form_def)
    next
      case enter
      with assms False KeyMsg have "handleEnter_form env g m = Step g' m' c"
        by (simp add: Update_form_def)
      from handleEnter_form_frame [OF this] False KeyMsg enter show ?thesis by auto
    next
      case other
      with assms False KeyMsg have "updateScreen_form env g m msg = Step g' m' c"
        by (simp add: Update_form_def)
      from updateScreen_form_frame [OF this] show ?thesis by simp
    qed
  next
    case (WindowSizeMsg w h)
    with assms False show ?thesis by (auto simp: Update_form_def)
  next
    case (OtherMsg n)
    with assms False have "updateScreen_form env g m msg = Step g' m' c"
      by (simp add: Update_form_def)
    from updateScreen_form_frame [OF this] show ?thesis by simp
  qed
qed

text \<open>
  The first version, for every step but the two that enter the handlers of the internal
  forwarding, which are not among the sources.
\<close>

lemma handleEnter_frame:
  assumes "handleEnter env g m = Step g' m' c"
      and "\<not> entersInternalForwarding m (KeyMsg k)"
      and "KeyString k = ''enter''"
  shows "(actions m' = actions m
          \<or> (state m = feeActionInput \<and> processFeeAction env g m = Step g' m' c))
         \<and> (forwarding m' = forwarding m
            \<or> (state m = cctpForwardingInput \<and> processCCTPForwarding env g m = Step g' m' c))"
proof (cases "state m")
  case actionSelection
  with assms show ?thesis
    unfolding handleEnter_def
    by (auto simp: init_fields split: option.splits if_splits)
next
  case feeActionInput
  with assms have p: "processFeeAction env g m = Step g' m' c"
    by (simp add: handleEnter_def)
  from processFeeAction_actions [OF p] p feeActionInput show ?thesis by auto
next
  case forwardingSelection
  with assms show ?thesis
    unfolding handleEnter_def entersInternalForwarding_def
    by (auto simp: init_fields split: option.splits if_splits)
next
  case cctpForwardingInput
  with assms have p: "processCCTPForwarding env g m = Step g' m' c"
    by (simp add: handleEnter_def)
  from processCCTPForwarding_actions [OF p] p cctpForwardingInput show ?thesis by simp
next
  case internalForwardingInput
  with assms show ?thesis by (simp add: entersInternalForwarding_def)
qed

lemma Update_frame:
  assumes "Update env g m msg = Step g' m' c"
      and "\<not> entersInternalForwarding m msg"
  shows "(actions m' = actions m
          \<or> (state m = feeActionInput
              \<and> (\<exists>k. msg = KeyMsg k \<and> KeyString k = ''enter'')
              \<and> processFeeAction env g m = Step g' m' c))
         \<and> (forwarding m' = forwarding m
            \<or> (state m = cctpForwardingInput
                \<and> (\<exists>k. msg = KeyMsg k \<and> KeyString k = ''enter'')
                \<and> processCCTPForwarding env g m = Step g' m' c))"
proof (cases msg)
  case (KeyMsg k)
  consider (quit) "KeyString k = ''ctrl+c'' \<or> KeyString k = ''q''"
    | (enter) "\<not> (KeyString k = ''ctrl+c'' \<or> KeyString k = ''q'')" "KeyString k = ''enter''"
    | (other) "\<not> (KeyString k = ''ctrl+c'' \<or> KeyString k = ''q'')" "KeyString k \<noteq> ''enter''"
    by blast
  then show ?thesis
  proof cases
    case quit
    with assms KeyMsg show ?thesis by (auto simp: Update_def)
  next
    case enter
    with assms KeyMsg have h: "handleEnter env g m = Step g' m' c"
      by (simp add: Update_def)
    from assms(2) KeyMsg have "\<not> entersInternalForwarding m (KeyMsg k)" by simp
    from handleEnter_frame [OF h this enter(2)] KeyMsg enter show ?thesis by auto
  next
    case other
    with assms KeyMsg have "updateScreen env g m msg = Step g' m' c"
      by (simp add: Update_def)
    from updateScreen_frame [OF this] show ?thesis by simp
  qed
next
  case (WindowSizeMsg w h)
  with assms show ?thesis by (auto simp: Update_def)
next
  case (OtherMsg n)
  with assms have "updateScreen env g m msg = Step g' m' c"
    by (simp add: Update_def)
  from updateScreen_frame [OF this] show ?thesis by simp
qed

text \<open>
  The fee form of the second version consults neither \<^verbatim>\<open>FeeAttributes.Validate\<close> nor
  \<^verbatim>\<open>Action.Validate\<close>: its step is the same whatever they answer.
\<close>

lemma updateFeeForm_ignores_validators:
  "updateFeeForm (env\<lparr>FeeAttributes_Validate := v, Action_Validate := w\<rparr>) g m msg
     = updateFeeForm env g m msg"
  by (simp add: updateFeeForm_def Let_def split: option.splits)
section \<open>Evaluating the wizard on concrete sessions\<close>

lemmas wizard_defs =
  Update_def handleEnter_def updateScreen_def
  Update_form_def handleEnter_form_def updateScreen_form_def updateFeeForm_def
  updateForwardingInputs_def
  processCCTPForwarding_def finishCCTPForwarding_def processFeeAction_def
  initFeeActionInput_def initActionSelection_def initForwardingSelection_def
  initCCTPForwardingInput_def initFeeActionForm_def InitialModel_def InitialModel_form_def
  SelectedItem_def list_New_def huh_NewForm_def GetString_def GetInt_def
  actionItems_def forwardingItems_def textinput_New_def Focus_def Blur_def
  KeyString_def key_def typed_def pasted_def g0_def cctpScreen_def feeScreen_def fieldText_def
  cctpSession_def pasteSession_def cctpForwardingOf_def
  sample_env_def failing_assembly_env_def completing_form_env_def
  sample_list_Update_def sample_textinput_Update_def
  TrimSpace_def trimRight_def spaceSeqs_def ParseUint10_def isDigit_def digitVal_def
  decodeHexOrBase64To32Bytes_def hexutil_Decode_def has0xPrefix_def fromHexChar_def
  base64_DecodeString_def decodeMap_def encodeStd_def isNewline_def
  leftPadIfRequired_def RandomBytes_def GetPayload_def main_def Let_def

section \<open>The forwarding submission\<close>

text \<open>
  C1. The claim: the forwarding is set only at the successful exit of the forwarding
  screen and the session is done at once, so that no session with the forwarding set
  and not done is reachable. In the session below the payload assembly fails after the
  forwarding has been constructed: the forwarding is set, the error is shown, the
  command is not the quit command and the event loop is still running.
\<close>

theorem forwarding_set_session_not_done:
  "(case steps (Update_form failing_assembly_env) g0 InitialModel_form cctpSession of
      Panic s \<Rightarrow> False
    | Step g m c \<Rightarrow>
        state m = cctpForwardingInput \<and> c = CmdNil
        \<and> forwarding m = Some (cctpForwardingOf 0 (replicate 31 0 @ [1]) [] [])
        \<and> err m = Some (Wrapf ''failed to build finalPayload'' (Ext ''invalid payload'')))
   \<and> Run (Update_form failing_assembly_env) g0 InitialModel_form cctpSession = None"
  by (simp add: wizard_defs)

text \<open>
  C1, amended. A submission of the CCTP screen that does not panic ends in one of three
  ways. (1) It stops before a forwarding is constructed, with no command, and the model
  is unchanged except possibly for the error. Otherwise the constructor
  \<^verbatim>\<open>NewCCTPForwarding\<close> has returned a forwarding for what the four fields gave (the
  parsed domain, for each address field the random bytes or the decoded bytes, the
  bytes of the passthrough field), and either (2) the payload is assembled: the model
  gets exactly that forwarding and the payload, and the command is the quit command; or
  (3) the assembly fails: the error of the assembly is set, there is no command, and
  nothing but the three fields forwarding, payload and error differs from before. And
  one step of the wizard changes the forwarding only as such a submission does, on the
  enter key on the CCTP screen: every step of the version with the fee form, and every
  step of the first version but the two that enter the handlers of the internal
  forwarding.
\<close>

theorem cctp_submission_outcomes:
  "(processCCTPForwarding env g m = Step g' m' c \<longrightarrow>
      (c = CmdNil \<and> (m' = m \<or> (\<exists>e. m' = m\<lparr>err := Some e\<rparr>)))
      \<or> (\<exists>n mr dc f p.
            ParseUint10 (fieldText m 0) 32 = Inr n
            \<and> (fieldText m 1 = ''r'' \<and> mr = fst (RandomBytes env g 32)
               \<or> decodeHexOrBase64To32Bytes (fieldText m 1) = Inr mr)
            \<and> (fieldText m 2 = ''r''
                 \<and> dc = fst (RandomBytes env
                              (if fieldText m 1 = ''r'' then snd (RandomBytes env g 32) else g) 32)
               \<or> fieldText m 2 = [] \<and> dc = []
               \<or> decodeHexOrBase64To32Bytes (fieldText m 2) = Inr dc)
            \<and> NewCCTPForwarding env (word_of_nat n) mr dc (map of_char (fieldText m 3)) = Inr f
            \<and> (c = Quit \<and> m' = m\<lparr>forwarding := Some f, payload := p\<rparr>
                 \<and> buildFinalPayload env f (actions m) = (p, None)
               \<or> (\<exists>e. c = CmdNil \<and> buildFinalPayload env f (actions m) = (p, Some e)
                     \<and> err m' = Some (Wrapf ''failed to build finalPayload'' e)
                     \<and> m'\<lparr>forwarding := forwarding m, payload := payload m, err := err m\<rparr> = m))))
   \<and> (Update_form env g m msg = Step g2 m2 c2 \<longrightarrow>
        forwarding m2 = forwarding m
        \<or> (state m = cctpForwardingInput
            \<and> (\<exists>k. msg = KeyMsg k \<and> KeyString k = ''enter'')
            \<and> processCCTPForwarding env g m = Step g2 m2 c2))
   \<and> (Update env g m msg = Step g3 m3 c3 \<and> \<not> entersInternalForwarding m msg \<longrightarrow>
        forwarding m3 = forwarding m
        \<or> (state m = cctpForwardingInput
            \<and> (\<exists>k. msg = KeyMsg k \<and> KeyString k = ''enter'')
            \<and> processCCTPForwarding env g m = Step g3 m3 c3))"
proof -
  have 1: "processCCTPForwarding env g m = Step g' m' c \<longrightarrow>
      (c = CmdNil \<and> (m' = m \<or> (\<exists>e. m' = m\<lparr>err := Some e\<rparr>)))
      \<or> (\<exists>n mr dc f p.
            ParseUint10 (fieldText m 0) 32 = Inr n
            \<and> (fieldText m 1 = ''r'' \<and> mr = fst (RandomBytes env g 32)
               \<or> decodeHexOrBase64To32Bytes (fieldText m 1) = Inr mr)
            \<and> (fieldText m 2 = ''r''
                 \<and> dc = fst (RandomBytes env
                              (if fieldText m 1 = ''r'' then snd (RandomBytes env g 32) else g) 32)
               \<or> fieldText m 2 = [] \<and> dc = []
               \<or> decodeHexOrBase64To32Bytes (fieldText m 2) = Inr dc)
            \<and> NewCCTPForwarding env (word_of_nat n) mr dc (map of_char (fieldText m 3)) = Inr f
            \<and> (c = Quit \<and> m' = m\<lparr>forwarding := Some f, payload := p\<rparr>
                 \<and> buildFinalPayload env f (actions m) = (p, None)
               \<or> (\<exists>e. c = CmdNil \<and> buildFinalPayload env f (actions m) = (p, Some e)
                     \<and> err m' = Some (Wrapf ''failed to build finalPayload'' e)
                     \<and> m'\<lparr>forwarding := forwarding m, payload := payload m, err := err m\<rparr> = m)))"
    (is "_ \<longrightarrow> ?early \<or> ?built")
  proof
    assume a: "processCCTPForwarding env g m = Step g' m' c"
    from processCCTPForwarding_args [OF a]
    consider (early) "?early"
      | (fin) n mr dc g2 where
          "ParseUint10 (fieldText m 0) 32 = Inr n"
          "fieldText m 1 = ''r'' \<and> mr = fst (RandomBytes env g 32)
             \<or> decodeHexOrBase64To32Bytes (fieldText m 1) = Inr mr"
          "fieldText m 2 = ''r''
               \<and> dc = fst (RandomBytes env
                            (if fieldText m 1 = ''r'' then snd (RandomBytes env g 32) else g) 32)
             \<or> fieldText m 2 = [] \<and> dc = []
             \<or> decodeHexOrBase64To32Bytes (fieldText m 2) = Inr dc"
          "finishCCTPForwarding env g2 m (word_of_nat n) mr dc (map of_char (fieldText m 3))
             = Step g' m' c"
      by blast
    then show "?early \<or> ?built"
    proof cases
      case early
      then show ?thesis by (rule disjI1)
    next
      case fin
      from finishCCTPForwarding_result [OF fin(4)]
      consider (failed) e where "c = CmdNil" "m' = m\<lparr>err := Some e\<rparr>"
        | (quit) f p where "c = Quit" "m' = m\<lparr>forwarding := Some f, payload := p\<rparr>"
            "NewCCTPForwarding env (word_of_nat n) mr dc (map of_char (fieldText m 3)) = Inr f"
            "buildFinalPayload env f (actions m) = (p, None)"
        | (stuck) f p e where "c = CmdNil"
            "m' = m\<lparr>forwarding := Some f, payload := p,
                      err := Some (Wrapf ''failed to build finalPayload'' e)\<rparr>"
            "NewCCTPForwarding env (word_of_nat n) mr dc (map of_char (fieldText m 3)) = Inr f"
            "buildFinalPayload env f (actions m) = (p, Some e)"
        by blast
      then show ?thesis
      proof cases
        case failed
        then have "?early" by blast
        then show ?thesis by (rule disjI1)
      next
        case quit
        with fin(1,2,3) have "?built" by blast
        then show ?thesis by (rule disjI2)
      next
        case stuck
        from stuck(2) have
          "err m' = Some (Wrapf ''failed to build finalPayload'' e)
           \<and> m'\<lparr>forwarding := forwarding m, payload := payload m, err := err m\<rparr> = m"
          by simp
        with stuck(1,3,4) fin(1,2,3) have "?built" by blast
        then show ?thesis by (rule disjI2)
      qed
    qed
  qed
  have 2: "Update_form env g m msg = Step g2 m2 c2 \<longrightarrow>
        forwarding m2 = forwarding m
        \<or> (state m = cctpForwardingInput
            \<and> (\<exists>k. msg = KeyMsg k \<and> KeyString k = ''enter'')
            \<and> processCCTPForwarding env g m = Step g2 m2 c2)"
    using Update_form_frame [of env g m msg g2 m2 c2] by blast
  have 3: "Update env g m msg = Step g3 m3 c3 \<and> \<not> entersInternalForwarding m msg \<longrightarrow>
        forwarding m3 = forwarding m
        \<or> (state m = cctpForwardingInput
            \<and> (\<exists>k. msg = KeyMsg k \<and> KeyString k = ''enter'')
            \<and> processCCTPForwarding env g m = Step g3 m3 c3)"
    using Update_frame [of env g m msg g3 m3 c3] by blast
  from 1 2 3 show ?thesis by (intro conjI)
qed

lemma cctp_example_submission:
  "processCCTPForwarding sample_env g0 (cctpScreen InitialModel_form [''0'', ''0x01'', [], []])
     = Step g0
         ((cctpScreen InitialModel_form [''0'', ''0x01'', [], []])
            \<lparr>forwarding := Some (cctpForwardingOf 0 (replicate 31 0 @ [1]) [] []),
             payload := ''payload''\<rparr>)
         Quit"
  by (simp add: wizard_defs)

lemma cctp_example_step:
  "Update_form sample_env g0 (cctpScreen InitialModel_form [''0'', ''0x01'', [], []]) (key KeyEnter)
     = processCCTPForwarding sample_env g0 (cctpScreen InitialModel_form [''0'', ''0x01'', [], []])"
  "Update sample_env g0 (cctpScreen InitialModel_form [''0'', ''0x01'', [], []]) (key KeyEnter)
     = processCCTPForwarding sample_env g0 (cctpScreen InitialModel_form [''0'', ''0x01'', [], []])"
  "\<not> entersInternalForwarding (cctpScreen InitialModel_form [''0'', ''0x01'', [], []])
       (key KeyEnter)"
  by (simp_all add: Update_form_def Update_def handleEnter_form_def handleEnter_def key_def
        KeyString_def cctpScreen_def initCCTPForwardingInput_def entersInternalForwarding_def
        Let_def)

lemma cctp_example_forwarding:
  "forwarding (cctpScreen InitialModel_form [''0'', ''0x01'', [], []]) = None"
  "state (cctpScreen InitialModel_form [''0'', ''0x01'', [], []]) = cctpForwardingInput"
  by (simp_all add: cctpScreen_def initCCTPForwardingInput_def initForwardingSelection_def
        InitialModel_form_def InitialModel_def initFeeActionForm_def Let_def)

theorem cctp_submission_outcomes_witness:
  "processCCTPForwarding sample_env g0 (cctpScreen InitialModel_form [''0'', ''0x01'', [], []])
     = Step g0
         ((cctpScreen InitialModel_form [''0'', ''0x01'', [], []])
            \<lparr>forwarding := Some (cctpForwardingOf 0 (replicate 31 0 @ [1]) [] []),
             payload := ''payload''\<rparr>)
         Quit
   \<and> Update_form sample_env g0 (cctpScreen InitialModel_form [''0'', ''0x01'', [], []])
        (key KeyEnter)
     = Step g0
         ((cctpScreen InitialModel_form [''0'', ''0x01'', [], []])
            \<lparr>forwarding := Some (cctpForwardingOf 0 (replicate 31 0 @ [1]) [] []),
             payload := ''payload''\<rparr>)
         Quit
   \<and> Update sample_env g0 (cctpScreen InitialModel_form [''0'', ''0x01'', [], []])
        (key KeyEnter)
     = Step g0
         ((cctpScreen InitialModel_form [''0'', ''0x01'', [], []])
            \<lparr>forwarding := Some (cctpForwardingOf 0 (replicate 31 0 @ [1]) [] []),
             payload := ''payload''\<rparr>)
         Quit
   \<and> \<not> entersInternalForwarding (cctpScreen InitialModel_form [''0'', ''0x01'', [], []])
         (key KeyEnter)
   \<and> state (cctpScreen InitialModel_form [''0'', ''0x01'', [], []]) = cctpForwardingInput
   \<and> forwarding (cctpScreen InitialModel_form [''0'', ''0x01'', [], []]) = None
   \<and> (\<exists>n mr dc f p.
         ParseUint10 (fieldText (cctpScreen InitialModel_form [''0'', ''0x01'', [], []]) 0) 32
           = Inr n
         \<and> NewCCTPForwarding sample_env (word_of_nat n) mr dc
              (map of_char (fieldText (cctpScreen InitialModel_form [''0'', ''0x01'', [], []]) 3))
            = Inr f
         \<and> (cctpScreen InitialModel_form [''0'', ''0x01'', [], []])
              \<lparr>forwarding := Some (cctpForwardingOf 0 (replicate 31 0 @ [1]) [] []),
               payload := ''payload''\<rparr>
            = (cctpScreen InitialModel_form [''0'', ''0x01'', [], []])
                \<lparr>forwarding := Some f, payload := p\<rparr>
         \<and> buildFinalPayload sample_env f
              (actions (cctpScreen InitialModel_form [''0'', ''0x01'', [], []])) = (p, None))"
proof -
  let ?m = "cctpScreen InitialModel_form [''0'', ''0x01'', [], []]"
  let ?m' = "?m\<lparr>forwarding := Some (cctpForwardingOf 0 (replicate 31 0 @ [1]) [] []),
                payload := ''payload''\<rparr>"
  have sub: "processCCTPForwarding sample_env g0 ?m = Step g0 ?m' Quit"
    by (rule cctp_example_submission)
  have upd: "Update_form sample_env g0 ?m (key KeyEnter) = Step g0 ?m' Quit"
    by (simp only: cctp_example_step sub)
  have upd1: "Update sample_env g0 ?m (key KeyEnter) = Step g0 ?m' Quit"
    by (simp only: cctp_example_step sub)
  have ni: "\<not> entersInternalForwarding ?m (key KeyEnter)"
    by (rule cctp_example_step)
  have st: "state ?m = cctpForwardingInput" and fw: "forwarding ?m = None"
    by (rule cctp_example_forwarding)+
  note inst = cctp_submission_outcomes
    [of sample_env g0 ?m g0 ?m' Quit "key KeyEnter" g0 ?m' Quit g0 ?m' Quit]
  from inst sub have
    "\<exists>n mr dc f p.
         ParseUint10 (fieldText ?m 0) 32 = Inr n
         \<and> NewCCTPForwarding sample_env (word_of_nat n) mr dc (map of_char (fieldText ?m 3)) = Inr f
         \<and> ?m' = ?m\<lparr>forwarding := Some f, payload := p\<rparr>
         \<and> buildFinalPayload sample_env f (actions ?m) = (p, None)"
    by (simp only: simp_thms Cmd.distinct) blast
  with sub upd upd1 ni st fw show ?thesis by blast
qed

text \<open>
  C2. The claim: the first failing check of a CCTP submission aborts it with that
  check's specific error. The check of the domain for emptiness returns the model as it
  is: with an empty domain field the submission ends with no command and no error,
  whatever the other fields hold.
\<close>

theorem cctp_empty_domain_no_error:
  "processCCTPForwarding env g (cctpScreen InitialModel [[], ''0x01'', [], []])
     = Step g (cctpScreen InitialModel [[], ''0x01'', [], []]) CmdNil
   \<and> err (cctpScreen InitialModel [[], ''0x01'', [], []]) = None"
  by (simp add: wizard_defs)

text \<open>
  C3. The claim: no failure is silently swallowed; a failing operation sets the error
  message or ends the process. Pressing enter on the CCTP screen with an empty domain
  is a failed submission, and the update step returns the very same model, without an
  error, and no command.
\<close>

theorem Update_form_swallows_empty_domain:
  "Update_form env g (cctpScreen InitialModel_form [[], [], [], []]) (key KeyEnter)
     = Step g (cctpScreen InitialModel_form [[], [], [], []]) CmdNil
   \<and> err (cctpScreen InitialModel_form [[], [], [], []]) = None"
  by (simp add: wizard_defs)

section \<open>The fee submission\<close>

text \<open>
  C6. The claim: a successful fee submission appends exactly one action and returns to
  the action selection, and a successful submission is the only way an action is ever
  appended. In the version with the fee form the step in which the form completes
  appends the action without looking at the error of \<^verbatim>\<open>SetAttributes\<close>. In the
  session below the first enter key opens the fee screen and the second completes the
  form; \<^verbatim>\<open>SetAttributes\<close> fails, and the action is appended all the same, without
  attributes, with no error set and the wizard back on the action list.
  \<^verbatim>\<open>processFeeAction\<close>, given the same recipient and basis points in the same
  environment, sets the error of the failed construction and appends nothing.
\<close>

theorem fee_form_appends_unbuilt_action:
  "(case steps (Update_form failing_SetAttributes_env) g0 InitialModel_form
           [key KeyEnter, key KeyEnter] of
      Panic s \<Rightarrow> False
    | Step g m c \<Rightarrow>
        state m = actionSelection
        \<and> actions m = [\<lparr>actionId = ACTION_FEE, actionAttributes = None\<rparr>]
        \<and> err m = None)
   \<and> actions InitialModel_form = []
   \<and> SetAttributes failing_SetAttributes_env \<lparr>actionId = ACTION_FEE, actionAttributes = None\<rparr>
        \<lparr>FeesInfo = [\<lparr>Recipient = ''addr1'', BasisPoints = 100\<rparr>]\<rparr>
      = (\<lparr>actionId = ACTION_FEE, actionAttributes = None\<rparr>, Some (Ext ''cannot pack attributes''))
   \<and> processFeeAction failing_SetAttributes_env g0 (feeScreen InitialModel [''addr1'', ''100''])
      = Step g0
          ((feeScreen InitialModel [''addr1'', ''100''])
             \<lparr>err := Some (Wrapf ''failed to set action attributes''
                              (Ext ''cannot pack attributes''))\<rparr>)
          CmdNil
   \<and> actions (feeScreen InitialModel [''addr1'', ''100'']) = []"
  by (simp add: wizard_defs failing_SetAttributes_env_def)

text \<open>
  The examples of the specification: the fee submission with recipient \<open>addr1\<close> and
  100 basis points appends that one action, in the first version on the enter key and
  in the version with the fee form when the form completes.
\<close>

lemma fee_example_submission:
  "processFeeAction sample_env g0 (feeScreen InitialModel [''addr1'', ''100''])
     = Step g0
         (initActionSelection
            ((feeScreen InitialModel [''addr1'', ''100''])
               \<lparr>actions := actions (feeScreen InitialModel [''addr1'', ''100'']) @ [feeExampleAction]\<rparr>))
         CmdNil"
  by (simp add: wizard_defs feeExampleAction_def)

lemma fee_example_step:
  "Update sample_env g0 (feeScreen InitialModel [''addr1'', ''100'']) (key KeyEnter)
     = processFeeAction sample_env g0 (feeScreen InitialModel [''addr1'', ''100''])"
  by (simp add: Update_def handleEnter_def key_def KeyString_def feeScreen_def
        initFeeActionInput_def Let_def)

lemma fee_form_example_step:
  "Update_form completing_form_env g0 (snd (initFeeActionInput g0 InitialModel_form)) (OtherMsg 0)
     = Step g0
         (initFeeActionForm
            ((snd (initFeeActionInput g0 InitialModel_form))
               \<lparr>feeActionForm :=
                  Some \<lparr>formState = StateCompleted,
                        formStrings = [(''fee_action_recipient'', ''addr1'')],
                        formInts = [(''fee_action_basis_points'', 100)]\<rparr>,
                state := actionSelection,
                actions := actions (snd (initFeeActionInput g0 InitialModel_form))
                             @ [feeExampleAction]\<rparr>))
         (Batch [CmdNil, CmdNil])"
  by (simp add: wizard_defs feeExampleAction_def)

section \<open>Quitting\<close>

text \<open>
  C7. The claim: after a quit key nothing is printed as a payload and the exit reflects
  an aborted session. \<^verbatim>\<open>main\<close> prints the payload of the final model in any case,
  and returns normally in any case: after \<open>q\<close> on the first screen it prints an empty
  line and the exit status is 0, the status of the completed session next to it.
\<close>

theorem quit_prints_line_and_exits_zero:
  "map_option main (Run (Update sample_env) g0 InitialModel [typed ''q''])
     = Some \<lparr>stdout = [CHR 0x0A], logged = None, exitStatus = 0\<rparr>
   \<and> map_option main (Run (Update sample_env) g0 InitialModel cctpSession)
     = Some \<lparr>stdout = ''payload'' @ [CHR 0x0A], logged = None, exitStatus = 0\<rparr>"
  by (simp add: wizard_defs)

text \<open>
  C7, amended. A key whose string is \<open>ctrl+c\<close> or \<open>q\<close> ends the session at once and
  leaves the model as it is, so the payload string is what it was: in every state of
  the first version of the wizard, and in every state but the fee screen of the version
  with the fee form (there the key goes to the form). The event loop returns that model
  without an error, and \<^verbatim>\<open>main\<close> prints its payload string and a newline and exits
  with status 0.
\<close>

theorem quit_key_ends_session:
  assumes "KeyString k = ''ctrl+c'' \<or> KeyString k = ''q''"
  shows "Update env g m (KeyMsg k) = Step g m Quit
         \<and> Run (Update env) g m (KeyMsg k # msgs) = Some (Some m, None)
         \<and> (state m \<noteq> feeActionInput \<longrightarrow>
              Update_form env g m (KeyMsg k) = Step g m Quit
              \<and> Run (Update_form env) g m (KeyMsg k # msgs) = Some (Some m, None))
         \<and> main (Some m, None)
            = \<lparr>stdout = payload m @ [CHR 0x0A], logged = None, exitStatus = 0\<rparr>"
  using assms by (auto simp: Update_def Update_form_def main_def GetPayload_def)

theorem quit_key_ends_session_witness:
  "KeyString \<lparr>keyType = KeyCtrlC, Runes = [], Alt = False, Paste = False\<rparr> = ''ctrl+c''
   \<and> Update sample_env g0 InitialModel
        (KeyMsg \<lparr>keyType = KeyCtrlC, Runes = [], Alt = False, Paste = False\<rparr>)
      = Step g0 InitialModel Quit
   \<and> Run (Update sample_env) g0 InitialModel
        [KeyMsg \<lparr>keyType = KeyCtrlC, Runes = [], Alt = False, Paste = False\<rparr>]
      = Some (Some InitialModel, None)
   \<and> state InitialModel \<noteq> feeActionInput
   \<and> Update_form sample_env g0 InitialModel
        (KeyMsg \<lparr>keyType = KeyCtrlC, Runes = [], Alt = False, Paste = False\<rparr>)
      = Step g0 InitialModel Quit
   \<and> main (Some InitialModel, None)
      = \<lparr>stdout = payload InitialModel @ [CHR 0x0A], logged = None, exitStatus = 0\<rparr>
   \<and> payload InitialModel = []"
proof -
  have k: "KeyString \<lparr>keyType = KeyCtrlC, Runes = [], Alt = False, Paste = False\<rparr> = ''ctrl+c''"
    by (simp add: KeyString_def)
  have p: "payload InitialModel = []" and s: "state InitialModel \<noteq> feeActionInput"
    by (simp_all add: InitialModel_def)
  from quit_key_ends_session
         [of "\<lparr>keyType = KeyCtrlC, Runes = [], Alt = False, Paste = False\<rparr>"
             sample_env g0 InitialModel "[]"] k p s
  show ?thesis by simp
qed

section \<open>The random sentinel\<close>

lemma RandomBytes_length: "length (fst (RandomBytes env g n)) = n"
  by (simp add: RandomBytes_def)

text \<open>
  C8. For an address field whose trimmed text is the sentinel \<open>r\<close> the CCTP submission
  takes the next 32 bytes of \<^verbatim>\<open>testutil.RandomBytes\<close> in place of decoded bytes (the
  test for the sentinel comes before the call of the decoder, forwarding.go lines 152
  and 164), so the field yields a 32-byte result and never a decode error. With a
  domain that parses this holds of the mint recipient and of the destination caller,
  whether the other address field holds the sentinel, is decoded, or (the destination
  caller) is empty: the submission goes on to the constructor with these bytes.
\<close>

theorem cctp_random_sentinel:
  assumes "4 \<le> length (forwardingInputs m)"
      and "ParseUint10 (fieldText m 0) 32 = Inr d"
  shows
    "length (fst (RandomBytes env g 32)) = 32
     \<and> (fieldText m 1 = ''r'' \<and> fieldText m 2 = ''r'' \<longrightarrow>
          processCCTPForwarding env g m =
            finishCCTPForwarding env (snd (RandomBytes env (snd (RandomBytes env g 32)) 32)) m
              (word_of_nat d) (fst (RandomBytes env g 32))
              (fst (RandomBytes env (snd (RandomBytes env g 32)) 32))
              (if fieldText m 3 = [] then [] else map of_char (fieldText m 3)))
     \<and> (fieldText m 1 = ''r'' \<and> fieldText m 2 = [] \<longrightarrow>
          processCCTPForwarding env g m =
            finishCCTPForwarding env (snd (RandomBytes env g 32)) m
              (word_of_nat d) (fst (RandomBytes env g 32)) []
              (if fieldText m 3 = [] then [] else map of_char (fieldText m 3)))
     \<and> (fieldText m 1 = ''r'' \<and> fieldText m 2 \<noteq> []
          \<and> decodeHexOrBase64To32Bytes (fieldText m 2) = Inr b \<longrightarrow>
          processCCTPForwarding env g m =
            finishCCTPForwarding env (snd (RandomBytes env g 32)) m
              (word_of_nat d) (fst (RandomBytes env g 32)) b
              (if fieldText m 3 = [] then [] else map of_char (fieldText m 3)))
     \<and> (fieldText m 1 \<noteq> [] \<and> decodeHexOrBase64To32Bytes (fieldText m 1) = Inr b
          \<and> fieldText m 2 = ''r'' \<longrightarrow>
          processCCTPForwarding env g m =
            finishCCTPForwarding env (snd (RandomBytes env g 32)) m
              (word_of_nat d) b (fst (RandomBytes env g 32))
              (if fieldText m 3 = [] then [] else map of_char (fieldText m 3)))"
proof -
  have d0: "fieldText m 0 \<noteq> []"
    using assms(2) by (auto simp: ParseUint10_def)
  have r: "decodeHexOrBase64To32Bytes ''r'' = Inl (Wrapf ''failed to decode base64'' CorruptInputError)"
    by (simp add: decodeHexOrBase64To32Bytes_def base64_DecodeString_def decodeMap_def
          encodeStd_def)
  have nr: "\<And>s x. decodeHexOrBase64To32Bytes s = Inr x \<Longrightarrow> s \<noteq> ''r''"
    using r by auto
  show ?thesis
    using assms d0 nr [of "fieldText m 1" b] nr [of "fieldText m 2" b]
    unfolding processCCTPForwarding_def fieldText_def Let_def
    by (auto simp: RandomBytes_def split: prod.splits)
qed

lemma cctpScreen_fieldText:
  "4 \<le> length (forwardingInputs (cctpScreen base [a, b, c, d]))"
  "fieldText (cctpScreen base [a, b, c, d]) 0 = TrimSpace a"
  "fieldText (cctpScreen base [a, b, c, d]) 1 = TrimSpace b"
  "fieldText (cctpScreen base [a, b, c, d]) (Suc 0) = TrimSpace b"
  "fieldText (cctpScreen base [a, b, c, d]) 2 = TrimSpace c"
  "fieldText (cctpScreen base [a, b, c, d]) 3 = TrimSpace d"
  by (simp_all add: fieldText_def cctpScreen_def initCCTPForwardingInput_def Let_def
        textinput_New_def Focus_def)

lemma sentinel_examples:
  "TrimSpace ''7'' = ''7''" "TrimSpace '' r'' = ''r''" "TrimSpace ''r '' = ''r''"
  "TrimSpace ''r'' = ''r''" "TrimSpace ''0x01'' = ''0x01''" "TrimSpace [] = []"
  "ParseUint10 ''7'' 32 = Inr 7"
  "decodeHexOrBase64To32Bytes ''0x01'' = Inr (replicate 31 0 @ [1])"
  by (simp_all add: TrimSpace_def trimRight_def spaceSeqs_def ParseUint10_def isDigit_def digitVal_def
        decodeHexOrBase64To32Bytes_def hexutil_Decode_def has0xPrefix_def fromHexChar_def
        leftPadIfRequired_def)

lemma sample_RandomBytes:
  "fst (RandomBytes sample_env g0 32) = map word_of_nat [0 ..< 32]"
  "snd (RandomBytes sample_env g0 32) = \<lparr>focusIndex = 0, randomPos = 32\<rparr>"
  "fst (RandomBytes sample_env \<lparr>focusIndex = 0, randomPos = 32\<rparr> 32) = map word_of_nat [32 ..< 64]"
  "snd (RandomBytes sample_env \<lparr>focusIndex = 0, randomPos = 32\<rparr> 32)
     = \<lparr>focusIndex = 0, randomPos = 64\<rparr>"
  by (simp_all add: RandomBytes_def sample_env_def g0_def del: upt.simps upt_rec_numeral)

theorem cctp_random_sentinel_witness:
  "4 \<le> length (forwardingInputs (cctpScreen InitialModel [''7'', '' r'', ''r '', [] ]))
   \<and> ParseUint10 (fieldText (cctpScreen InitialModel [''7'', '' r'', ''r '', [] ]) 0) 32 = Inr 7
   \<and> fieldText (cctpScreen InitialModel [''7'', '' r'', ''r '', [] ]) 1 = ''r''
   \<and> fieldText (cctpScreen InitialModel [''7'', '' r'', ''r '', [] ]) 2 = ''r''
   \<and> processCCTPForwarding sample_env g0 (cctpScreen InitialModel [''7'', '' r'', ''r '', [] ])
      = finishCCTPForwarding sample_env \<lparr>focusIndex = 0, randomPos = 64\<rparr>
          (cctpScreen InitialModel [''7'', '' r'', ''r '', [] ]) 7
          (map word_of_nat [0 ..< 32]) (map word_of_nat [32 ..< 64]) []
   \<and> fieldText (cctpScreen InitialModel [''7'', ''r'', [], [] ]) 2 = []
   \<and> processCCTPForwarding sample_env g0 (cctpScreen InitialModel [''7'', ''r'', [], [] ])
      = finishCCTPForwarding sample_env \<lparr>focusIndex = 0, randomPos = 32\<rparr>
          (cctpScreen InitialModel [''7'', ''r'', [], [] ]) 7
          (map word_of_nat [0 ..< 32]) [] []
   \<and> decodeHexOrBase64To32Bytes (fieldText (cctpScreen InitialModel [''7'', ''r'', ''0x01'', [] ]) 2)
      = Inr (replicate 31 0 @ [1])
   \<and> processCCTPForwarding sample_env g0 (cctpScreen InitialModel [''7'', ''r'', ''0x01'', [] ])
      = finishCCTPForwarding sample_env \<lparr>focusIndex = 0, randomPos = 32\<rparr>
          (cctpScreen InitialModel [''7'', ''r'', ''0x01'', [] ]) 7
          (map word_of_nat [0 ..< 32]) (replicate 31 0 @ [1]) []
   \<and> decodeHexOrBase64To32Bytes (fieldText (cctpScreen InitialModel [''7'', ''0x01'', ''r'', [] ]) 1)
      = Inr (replicate 31 0 @ [1])
   \<and> processCCTPForwarding sample_env g0 (cctpScreen InitialModel [''7'', ''0x01'', ''r'', [] ])
      = finishCCTPForwarding sample_env \<lparr>focusIndex = 0, randomPos = 32\<rparr>
          (cctpScreen InitialModel [''7'', ''0x01'', ''r'', [] ]) 7
          (replicate 31 0 @ [1]) (map word_of_nat [0 ..< 32]) []"
proof -
  note ev = cctpScreen_fieldText sentinel_examples sample_RandomBytes
  note both = cctp_random_sentinel
    [where m = "cctpScreen InitialModel [''7'', '' r'', ''r '', [] ]" and d = 7
       and env = sample_env and g = g0 and b = "[]"]
  note mint_only = cctp_random_sentinel
    [where m = "cctpScreen InitialModel [''7'', ''r'', [], [] ]" and d = 7
       and env = sample_env and g = g0 and b = "[]"]
  note mint_and_decoded = cctp_random_sentinel
    [where m = "cctpScreen InitialModel [''7'', ''r'', ''0x01'', [] ]" and d = 7
       and env = sample_env and g = g0 and b = "replicate 31 0 @ [1]"]
  note decoded_and_caller = cctp_random_sentinel
    [where m = "cctpScreen InitialModel [''7'', ''0x01'', ''r'', [] ]" and d = 7
       and env = sample_env and g = g0 and b = "replicate 31 0 @ [1]"]
  from both mint_only mint_and_decoded decoded_and_caller show ?thesis
    by (simp add: ev del: upt.simps upt_rec_numeral replicate.simps)
qed

section \<open>The letter q\<close>

text \<open>
  C10. The claim: a key event whose string is \<open>q\<close> quits before it reaches a text
  field, so that no submitted field value can contain the letter q. Only an event
  whose string is exactly \<open>q\<close> is caught: a paste of \<open>q\<close> has the string \<open>[q]\<close>,
  reaches the focused field, and the session below submits it as the passthrough
  payload and completes.
\<close>

theorem pasted_q_is_submitted:
  "KeyString \<lparr>keyType = KeyRunes, Runes = ''q'', Alt = False, Paste = True\<rparr> = ''[q]''
   \<and> (case Run (Update sample_env) g0 InitialModel pasteSession of
        None \<Rightarrow> False
      | Some r \<Rightarrow>
          snd r = None
          \<and> map_option (\<lambda>m. map tiValue (forwardingInputs m)) (fst r)
              = Some [''0'', ''r'', ''r'', ''q'']
          \<and> map_option (\<lambda>m. map_option PassthroughPayload (forwarding m)) (fst r)
              = Some (Some [of_char CHR ''q'']))"
  by (simp add: wizard_defs)

text \<open>
  C10, amended. A key event whose string is \<open>q\<close> returns the model unchanged, its
  text fields included, with the quit command: in every state of the first version of
  the wizard, and in every state but the fee screen of the version with the fee form,
  where every message goes to the form first. On the CCTP screen every key event whose
  string is none of \<open>ctrl+c\<close>, \<open>q\<close>, \<open>enter\<close> and the four focus keys is handed to
  every text field; such an event may carry the letter q.
\<close>

theorem q_key_quits_before_fields:
  "(KeyString k = ''q'' \<longrightarrow> Update env g m (KeyMsg k) = Step g m Quit)
   \<and> (KeyString k = ''q'' \<and> state m \<noteq> feeActionInput \<longrightarrow>
        Update_form env g m (KeyMsg k) = Step g m Quit)
   \<and> (state m = feeActionInput \<longrightarrow>
        Update_form env g m (KeyMsg k) = updateFeeForm env g m (KeyMsg k))
   \<and> (state m = cctpForwardingInput \<and> forwardingInputs m \<noteq> []
       \<and> KeyString k \<notin> {''ctrl+c'', ''q'', ''enter'', Tab env, ShiftTab env, Up env, Down env}
       \<longrightarrow> Update env g m (KeyMsg k) =
             Step g
               (m\<lparr>forwardingInputs :=
                    map (\<lambda>ti. fst (textinput_Update env ti (KeyMsg k))) (forwardingInputs m)\<rparr>)
               (Batch (map (\<lambda>ti. snd (textinput_Update env ti (KeyMsg k))) (forwardingInputs m))))"
  by (auto simp: Update_def Update_form_def updateScreen_def updateForwardingInputs_def Let_def)

theorem q_key_quits_before_fields_witness:
  "KeyString \<lparr>keyType = KeyRunes, Runes = ''q'', Alt = False, Paste = False\<rparr> = ''q''
   \<and> Update sample_env g0 (cctpScreen InitialModel [''0'', [], [], [] ])
        (KeyMsg \<lparr>keyType = KeyRunes, Runes = ''q'', Alt = False, Paste = False\<rparr>)
      = Step g0 (cctpScreen InitialModel [''0'', [], [], [] ]) Quit
   \<and> state (cctpScreen InitialModel [''0'', [], [], [] ]) \<noteq> feeActionInput
   \<and> Update_form sample_env g0 (cctpScreen InitialModel [''0'', [], [], [] ])
        (KeyMsg \<lparr>keyType = KeyRunes, Runes = ''q'', Alt = False, Paste = False\<rparr>)
      = Step g0 (cctpScreen InitialModel [''0'', [], [], [] ]) Quit
   \<and> state (snd (initFeeActionInput g0 InitialModel_form)) = feeActionInput
   \<and> Update_form sample_env g0 (snd (initFeeActionInput g0 InitialModel_form))
        (KeyMsg \<lparr>keyType = KeyRunes, Runes = ''q'', Alt = False, Paste = False\<rparr>)
      = updateFeeForm sample_env g0 (snd (initFeeActionInput g0 InitialModel_form))
        (KeyMsg \<lparr>keyType = KeyRunes, Runes = ''q'', Alt = False, Paste = False\<rparr>)
   \<and> state (cctpScreen InitialModel [''0'', [], [], [] ]) = cctpForwardingInput
   \<and> KeyString \<lparr>keyType = KeyRunes, Runes = ''q'', Alt = False, Paste = True\<rparr> = ''[q]''
   \<and> Update sample_env g0 (cctpScreen InitialModel [''0'', [], [], [] ])
        (KeyMsg \<lparr>keyType = KeyRunes, Runes = ''q'', Alt = False, Paste = True\<rparr>)
      = Step g0
          ((cctpScreen InitialModel [''0'', [], [], [] ])
             \<lparr>forwardingInputs :=
                map (\<lambda>ti. fst (textinput_Update sample_env ti
                       (KeyMsg \<lparr>keyType = KeyRunes, Runes = ''q'', Alt = False, Paste = True\<rparr>)))
                  (forwardingInputs (cctpScreen InitialModel [''0'', [], [], [] ]))\<rparr>)
          (Batch (map (\<lambda>ti. snd (textinput_Update sample_env ti
                       (KeyMsg \<lparr>keyType = KeyRunes, Runes = ''q'', Alt = False, Paste = True\<rparr>)))
                  (forwardingInputs (cctpScreen InitialModel [''0'', [], [], [] ]))))"
proof -
  let ?m = "cctpScreen InitialModel [''0'', [], [], [] ]"
  let ?f = "snd (initFeeActionInput g0 InitialModel_form)"
  let ?q = "\<lparr>keyType = KeyRunes, Runes = ''q'', Alt = False, Paste = False\<rparr>"
  let ?p = "\<lparr>keyType = KeyRunes, Runes = ''q'', Alt = False, Paste = True\<rparr>"
  have kq: "KeyString ?q = ''q''" and kp: "KeyString ?p = ''[q]''"
    by (simp_all add: KeyString_def)
  have st: "state ?m = cctpForwardingInput" and ne: "forwardingInputs ?m \<noteq> []"
    by (simp_all add: cctpScreen_def initCCTPForwardingInput_def Let_def)
  have sf: "state ?f = feeActionInput"
    by (simp add: initFeeActionInput_def Let_def)
  have names: "''[q]'' \<notin> {''ctrl+c'', ''q'', ''enter'', Tab sample_env, ShiftTab sample_env,
                           Up sample_env, Down sample_env}"
    by (simp add: sample_env_def)
  from q_key_quits_before_fields [of ?q sample_env g0 ?m] kq st
  have 1: "Update sample_env g0 ?m (KeyMsg ?q) = Step g0 ?m Quit"
    and 2: "Update_form sample_env g0 ?m (KeyMsg ?q) = Step g0 ?m Quit"
    by simp_all
  from q_key_quits_before_fields [of ?q sample_env g0 ?f] sf
  have 3: "Update_form sample_env g0 ?f (KeyMsg ?q) = updateFeeForm sample_env g0 ?f (KeyMsg ?q)"
    by simp
  from q_key_quits_before_fields [of ?p sample_env g0 ?m] kp st ne names
  have 4: "Update sample_env g0 ?m (KeyMsg ?p) =
             Step g0
               (?m\<lparr>forwardingInputs :=
                    map (\<lambda>ti. fst (textinput_Update sample_env ti (KeyMsg ?p))) (forwardingInputs ?m)\<rparr>)
               (Batch (map (\<lambda>ti. snd (textinput_Update sample_env ti (KeyMsg ?p))) (forwardingInputs ?m)))"
    by simp
  have st': "state ?m \<noteq> feeActionInput" using st by simp
  from kq kp st st' sf 1 2 3 4 show ?thesis by blast
qed

section \<open>The order of the checks\<close>

text \<open>
  The checks of a CCTP submission after the first, in their order, each with its own
  error: the domain must parse; the mint recipient must not be empty; it must decode
  unless it is the sentinel; the destination caller, when it is neither empty nor the
  sentinel, must decode; the passthrough text is taken as bytes when it is not empty.
  A failing check leaves the model unchanged but for its error, whatever the later
  fields hold.
\<close>

lemma cctp_validation_order:
  assumes "4 \<le> length (forwardingInputs m)"
  shows
    "(fieldText m 0 \<noteq> [] \<and> ParseUint10 (fieldText m 0) 32 = Inl e \<longrightarrow>
        processCCTPForwarding env g m
          = Step g (m\<lparr>err := Some (Wrapf ''invalid destination domain'' e)\<rparr>) CmdNil)
     \<and> (ParseUint10 (fieldText m 0) 32 = Inr d \<and> fieldText m 1 = [] \<longrightarrow>
        processCCTPForwarding env g m
          = Step g (m\<lparr>err := Some (New ''mint recipient cannot be empty'')\<rparr>) CmdNil)
     \<and> (ParseUint10 (fieldText m 0) 32 = Inr d \<and> fieldText m 1 \<noteq> [] \<and> fieldText m 1 \<noteq> ''r''
          \<and> decodeHexOrBase64To32Bytes (fieldText m 1) = Inl e \<longrightarrow>
        processCCTPForwarding env g m
          = Step g (m\<lparr>err := Some (Wrapf ''invalid mint recipient'' e)\<rparr>) CmdNil)
     \<and> (ParseUint10 (fieldText m 0) 32 = Inr d \<and> fieldText m 1 \<noteq> []
          \<and> decodeHexOrBase64To32Bytes (fieldText m 1) = Inr b1
          \<and> fieldText m 2 \<noteq> [] \<and> fieldText m 2 \<noteq> ''r''
          \<and> decodeHexOrBase64To32Bytes (fieldText m 2) = Inl e \<longrightarrow>
        processCCTPForwarding env g m
          = Step g (m\<lparr>err := Some (Wrapf ''invalid destination caller'' e)\<rparr>) CmdNil)
     \<and> (ParseUint10 (fieldText m 0) 32 = Inr d \<and> fieldText m 1 \<noteq> []
          \<and> decodeHexOrBase64To32Bytes (fieldText m 1) = Inr b1
          \<and> fieldText m 2 \<noteq> []
          \<and> decodeHexOrBase64To32Bytes (fieldText m 2) = Inr b2 \<longrightarrow>
        processCCTPForwarding env g m
          = finishCCTPForwarding env g m (word_of_nat d) b1 b2
              (if fieldText m 3 = [] then [] else map of_char (fieldText m 3)))
     \<and> (ParseUint10 (fieldText m 0) 32 = Inr d \<and> fieldText m 1 \<noteq> []
          \<and> decodeHexOrBase64To32Bytes (fieldText m 1) = Inr b1
          \<and> fieldText m 2 = [] \<longrightarrow>
        processCCTPForwarding env g m
          = finishCCTPForwarding env g m (word_of_nat d) b1 []
              (if fieldText m 3 = [] then [] else map of_char (fieldText m 3)))"
proof -
  have r: "decodeHexOrBase64To32Bytes ''r'' = Inl (Wrapf ''failed to decode base64'' CorruptInputError)"
    by (simp add: decodeHexOrBase64To32Bytes_def base64_DecodeString_def decodeMap_def
          encodeStd_def)
  have nr: "\<And>s x. decodeHexOrBase64To32Bytes s = Inr x \<Longrightarrow> s \<noteq> ''r''"
    using r by auto
  have d0: "\<And>x. ParseUint10 (fieldText m 0) 32 = Inr x \<Longrightarrow> fieldText m 0 \<noteq> []"
    by (auto simp: ParseUint10_def)
  show ?thesis
    using assms nr [of "fieldText m 1" b1] nr [of "fieldText m 2" b2] d0 [of d]
    unfolding processCCTPForwarding_def fieldText_def Let_def
    by auto
qed

text \<open>
  The checks of a fee submission in their order: the recipient must not be empty, the
  basis points must not be empty, the basis points must parse as a 32-bit unsigned
  number; the schema library's validations follow.
\<close>

lemma fee_validation_order:
  assumes "2 \<le> length (actionInputs m)"
  shows
    "(TrimSpace (tiValue (actionInputs m ! 0)) = [] \<longrightarrow>
        processFeeAction env g m
          = Step g (m\<lparr>err := Some (New ''recipient address is required'')\<rparr>) CmdNil)
     \<and> (TrimSpace (tiValue (actionInputs m ! 0)) \<noteq> []
          \<and> TrimSpace (tiValue (actionInputs m ! 1)) = [] \<longrightarrow>
        processFeeAction env g m
          = Step g (m\<lparr>err := Some (New ''basis points is required'')\<rparr>) CmdNil)
     \<and> (TrimSpace (tiValue (actionInputs m ! 0)) \<noteq> []
          \<and> TrimSpace (tiValue (actionInputs m ! 1)) \<noteq> []
          \<and> ParseUint10 (TrimSpace (tiValue (actionInputs m ! 1))) 32 = Inl e \<longrightarrow>
        processFeeAction env g m
          = Step g (m\<lparr>err := Some (Wrapf ''invalid basis points'' e)\<rparr>) CmdNil)"
  using assms unfolding processFeeAction_def Let_def by auto

text \<open>
  Two examples of the specification. A CCTP submission with domain 0, a mint recipient
  of 64 hexadecimal digits and the two optional fields empty succeeds: the forwarding
  is set and the session quits. A submission with an empty mint recipient fails with
  the error for the empty field and leaves the forwarding unset.
\<close>

lemma cctp_spec_example_succeeds:
  "processCCTPForwarding sample_env g0
     (cctpScreen InitialModel
        [''0'', ''0x00000000000000000000000000000000000000000000000000000000000000ff'', [], []])
     = Step g0
         ((cctpScreen InitialModel
            [''0'', ''0x00000000000000000000000000000000000000000000000000000000000000ff'', [], []])
            \<lparr>forwarding := Some (cctpForwardingOf 0 (replicate 31 0 @ [255]) [] []),
             payload := ''payload''\<rparr>)
         Quit"
  by (simp add: wizard_defs, simp add: eval_nat_numeral)

lemma cctp_spec_example_empty_mint:
  "processCCTPForwarding sample_env g0 (cctpScreen InitialModel [''0'', [], [], []])
     = Step g0
         ((cctpScreen InitialModel [''0'', [], [], []])
            \<lparr>err := Some (New ''mint recipient cannot be empty'')\<rparr>)
         CmdNil
   \<and> forwarding (cctpScreen InitialModel [''0'', [], [], []]) = None"
  by (simp add: wizard_defs)

text \<open>For a number that is not negative the validator of the basis points succeeds
  exactly on \<open>0 < b \<le> 10000\<close>.\<close>

lemma validateBPS_nonnegative:
  "0 \<le> b \<Longrightarrow> validateBPS b = None \<longleftrightarrow> 0 < b \<and> b \<le> 10000"
  by (auto simp: validateBPS_def BPSNormalizer_def)

text \<open>The text \<open>-1\<close> passes the validator closure of the fee form's basis-points
  field.\<close>

lemma fee_form_accepts_minus_one: "fee_action_basis_points_Validate ''-1'' = None"
  by (simp add: fee_action_basis_points_Validate_def Atoi_def isDigit_def digitVal_def
        validateBPS_def BPSNormalizer_def)

text \<open>
  \<^verbatim>\<open>strings.TrimSpace\<close> on white space outside ASCII: the no-break space U+00A0 before
  the sentinel and the hair space U+200A and a blank after it are trimmed; a
  continuation byte without its lead byte and a lead byte without its continuation are
  no white space and stay.
\<close>

lemma TrimSpace_unicode_examples:
  "TrimSpace [CHR 0xC2, CHR 0xA0, CHR ''r'', CHR 0xE2, CHR 0x80, CHR 0x8A, CHR 0x20] = ''r''"
  "TrimSpace [CHR 0x85, CHR ''r'', CHR 0xC2] = [CHR 0x85, CHR ''r'', CHR 0xC2]"
  "TrimSpace [CHR 0x09, CHR 0xE3, CHR 0x80, CHR 0x80] = []"
  by (simp_all add: TrimSpace_def trimRight_def spaceSeqs_def)

end
